theory Spec2Isabelle
  imports Complex_Main "HOL-Library.Sublist"
begin

section \<open>JavaScript values\<close>

text \<open>
  The widget is TypeScript running in a browser. Strings are lists of code units; every
  character the sources use lies below 256 (the umlauts and the degree sign are written
  with their code unit, \<open>CHR 0xE4\<close> for a-umlaut). Numbers are the exact rationals
  (the rounding of IEEE doubles is not modelled) and \<open>NaN\<close> is \<open>None\<close> in
  \<open>rat option\<close>. A value read back from \<open>JSON.parse\<close> is untyped at run time,
  whatever the TypeScript annotation says, so it is a \<open>jsval\<close>; \<open>JUndefined\<close>
  is what reading a missing property gives.
\<close>

datatype jsval =
    JUndefined
  | JNull
  | JBool bool
  | JNum rat
  | JStr string
  | JArr "jsval list"
  | JObj "(string \<times> jsval) list"

datatype error =
    TypeError
  | SyntaxError
  | SecurityError
  | QuotaExceededError
  | NetworkError
  | Error string

text \<open>
  Two built-ins of the language are taken as parameters instead of being re-implemented:
  \<open>Number::toString\<close> and the \<open>StringToNumber\<close> grammar.
\<close>

record host =
  NumberToString :: "rat \<Rightarrow> string"
  StringToNumber :: "string \<Rightarrow> rat option"

text \<open>Truthiness, as \<open>!x\<close>, \<open>x || y\<close> and \<open>if (x)\<close> test it.\<close>

fun truthy :: "jsval \<Rightarrow> bool" where
  "truthy JUndefined = False"
| "truthy JNull = False"
| "truthy (JBool b) = b"
| "truthy (JNum n) = (n \<noteq> 0)"
| "truthy (JStr s) = (s \<noteq> [])"
| "truthy (JArr xs) = True"
| "truthy (JObj kvs) = True"

text \<open>\<open>Array.prototype.join\<close> on an array of strings.\<close>

fun join :: "string \<Rightarrow> string list \<Rightarrow> string" where
  "join sep [] = []"
| "join sep [x] = x"
| "join sep (x # y # ys) = x @ sep @ join sep (y # ys)"

text \<open>
  \<open>ToString\<close>, applied by a template literal, and \<open>ToNumber\<close>, applied by the
  binary minus. Both may throw. An array converts to the join of its elements with a
  comma, \<open>null\<close> and \<open>undefined\<close> elements giving the empty string. An object that
  \<open>JSON.parse\<close> built has no callable property of its own, so its conversion to a
  primitive ends in the inherited \<open>toString\<close>, which gives \<open>"[object Object]"\<close>,
  unless the object has an own property named \<open>toString\<close>: that one is found instead,
  is not callable, and the conversion throws a \<open>TypeError\<close>. An own \<open>valueOf\<close> is
  not callable either and is skipped.
\<close>

fun ToString :: "host \<Rightarrow> jsval \<Rightarrow> error + string"
  and ToStrings :: "host \<Rightarrow> jsval list \<Rightarrow> error + string list" where
  "ToString H JUndefined = Inr ''undefined''"
| "ToString H JNull = Inr ''null''"
| "ToString H (JBool b) = Inr (if b then ''true'' else ''false'')"
| "ToString H (JNum n) = Inr (NumberToString H n)"
| "ToString H (JStr s) = Inr s"
| "ToString H (JArr xs) =
     (case ToStrings H xs of Inl e \<Rightarrow> Inl e | Inr ss \<Rightarrow> Inr (join '','' ss))"
| "ToString H (JObj kvs) =
     (if map_of kvs ''toString'' = None then Inr ''[object Object]'' else Inl TypeError)"
| "ToStrings H [] = Inr []"
| "ToStrings H (x # xs) =
     (case (if x = JUndefined \<or> x = JNull then Inr [] else ToString H x) of
        Inl e \<Rightarrow> Inl e
      | Inr s \<Rightarrow> (case ToStrings H xs of Inl e \<Rightarrow> Inl e | Inr ss \<Rightarrow> Inr (s # ss)))"

text \<open>\<open>NaN\<close> is \<open>Inr None\<close>; \<open>"[object Object]"\<close> is not numeric.\<close>

fun ToNumber :: "host \<Rightarrow> jsval \<Rightarrow> error + rat option" where
  "ToNumber H JUndefined = Inr None"
| "ToNumber H JNull = Inr (Some 0)"
| "ToNumber H (JBool b) = Inr (Some (if b then 1 else 0))"
| "ToNumber H (JNum n) = Inr (Some n)"
| "ToNumber H (JStr s) = Inr (StringToNumber H s)"
| "ToNumber H (JArr xs) =
     (case ToString H (JArr xs) of Inl e \<Rightarrow> Inl e | Inr s \<Rightarrow> Inr (StringToNumber H s))"
| "ToNumber H (JObj kvs) =
     (if map_of kvs ''toString'' = None then Inr None else Inl TypeError)"

text \<open>
  Reading one of the properties \<open>lat\<close>, \<open>lon\<close>, \<open>name\<close>, \<open>timestamp\<close>,
  \<open>searchText\<close>, \<open>country\<close>, \<open>postcodes\<close> (none of them is a built-in property of
  a string, a number, a boolean or an array): \<open>null\<close> throws, an object is looked up,
  anything else gives \<open>undefined\<close>.
\<close>

fun get_field :: "string \<Rightarrow> jsval \<Rightarrow> error + jsval" where
  "get_field k JNull = Inl TypeError"
| "get_field k JUndefined = Inl TypeError"
| "get_field k (JObj kvs) = Inr (case map_of kvs k of None \<Rightarrow> JUndefined | Some v \<Rightarrow> v)"
| "get_field k v = Inr JUndefined"

text \<open>Decimal digits of an array length or index (\<open>`${n}`\<close>, \<open>n.toString()\<close>).\<close>

fun digits :: "nat \<Rightarrow> nat \<Rightarrow> string" where
  "digits 0 n = []"
| "digits (Suc fuel) n =
     (if n < 10 then [char_of (48 + n)]
      else digits fuel (n div 10) @ [char_of (48 + n mod 10)])"

definition show_nat :: "nat \<Rightarrow> string" where
  "show_nat n = digits (Suc n) n"

text \<open>\<open>String.prototype.trim\<close> on the white space below code unit 256.\<close>

definition is_space :: "char \<Rightarrow> bool" where
  "is_space c = (of_char c \<in> {9, 10, 11, 12, 13, 32, 160 :: nat})"

definition trim :: "string \<Rightarrow> string" where
  "trim s = rev (dropWhile is_space (rev (dropWhile is_space s)))"

text \<open>\<open>Array.prototype.slice(a, b)\<close> for \<open>0 \<le> a \<le> b\<close>.\<close>

definition slice :: "nat \<Rightarrow> nat \<Rightarrow> 'a list \<Rightarrow> 'a list" where
  "slice a b xs = take (b - a) (drop a xs)"

text \<open>\<open>Math.round\<close>: the nearest integer, halves towards plus infinity.\<close>

definition Math_round :: "rat \<Rightarrow> int" where
  "Math_round x = \<lfloor>x + 1 / 2\<rfloor>"

section \<open>weather-api.ts: data\<close>

record WeatherData =
  temperature :: int
  feelsLike :: int
  humidity :: rat
  windSpeed :: rat
  weatherCode :: int
  weatherDescription :: string
  cityName :: string
  country :: "string option"
  postcodes :: "string list option"

record Coordinates =
  lat :: rat
  lon :: rat
  name :: string
  ccountry :: "string option"
  cpostcodes :: "string list option"

record weather_info =
  condition :: string
  image_name :: string
  background :: string

definition weatherCodeMap :: "(int \<times> weather_info) list" where
  "weatherCodeMap = [
    (0, \<lparr>condition = ''Klarer Himmel'', image_name = ''sunny.png'', background = ''sunny''\<rparr>),
    (1, \<lparr>condition = CHR 0xDC # ''berwiegend klar'', image_name = ''sunny.png'', background = ''sunny''\<rparr>),
    (2, \<lparr>condition = ''Teilweise bew'' @ CHR 0xF6 # ''lkt'', image_name = ''cloudy_sunny.png'', background = ''sunny''\<rparr>),
    (3, \<lparr>condition = ''Bedeckt'', image_name = ''cloudy.png'', background = ''cloudy''\<rparr>),
    (45, \<lparr>condition = ''Neblig'', image_name = ''cloudy.png'', background = ''cloudy''\<rparr>),
    (48, \<lparr>condition = ''Eisnebel'', image_name = ''cloudy.png'', background = ''cloudy''\<rparr>),
    (51, \<lparr>condition = ''Nieselregen'', image_name = ''sunny_rain.png'', background = ''cloudy''\<rparr>),
    (53, \<lparr>condition = ''Nieselregen'', image_name = ''sunny_rain.png'', background = ''cloudy''\<rparr>),
    (55, \<lparr>condition = ''Starker Niesel'', image_name = ''sunny_rain.png'', background = ''cloudy''\<rparr>),
    (56, \<lparr>condition = ''Eisregen'', image_name = ''sunny_rain.png'', background = ''cloudy''\<rparr>),
    (57, \<lparr>condition = ''Starker Eisregen'', image_name = ''sunny_rain.png'', background = ''cloudy''\<rparr>),
    (61, \<lparr>condition = ''Leichter Regen'', image_name = ''sunny_rain.png'', background = ''cloudy''\<rparr>),
    (63, \<lparr>condition = ''M'' @ CHR 0xE4 # CHR 0xDF # ''iger Regen'', image_name = ''sunny_rain.png'', background = ''cloudy''\<rparr>),
    (65, \<lparr>condition = ''Starker Regen'', image_name = ''sunny_rain.png'', background = ''cloudy''\<rparr>),
    (66, \<lparr>condition = ''Eisregen'', image_name = ''sunny_rain.png'', background = ''cloudy''\<rparr>),
    (67, \<lparr>condition = ''Starker Eisregen'', image_name = ''sunny_rain.png'', background = ''cloudy''\<rparr>),
    (71, \<lparr>condition = ''Leichter Schnee'', image_name = ''cloudy.png'', background = ''cloudy''\<rparr>),
    (73, \<lparr>condition = ''M'' @ CHR 0xE4 # CHR 0xDF # ''iger Schnee'', image_name = ''cloudy.png'', background = ''cloudy''\<rparr>),
    (75, \<lparr>condition = ''Starker Schnee'', image_name = ''cloudy.png'', background = ''cloudy''\<rparr>),
    (77, \<lparr>condition = ''Schneek'' @ CHR 0xF6 # ''rner'', image_name = ''cloudy.png'', background = ''cloudy''\<rparr>),
    (80, \<lparr>condition = ''Regenschauer'', image_name = ''sunny_rain.png'', background = ''cloudy''\<rparr>),
    (81, \<lparr>condition = ''Regenschauer'', image_name = ''sunny_rain.png'', background = ''cloudy''\<rparr>),
    (82, \<lparr>condition = ''Starke Schauer'', image_name = ''sunny_rain.png'', background = ''cloudy''\<rparr>),
    (85, \<lparr>condition = ''Schneeschauer'', image_name = ''cloudy.png'', background = ''cloudy''\<rparr>),
    (86, \<lparr>condition = ''Starke Schneeschauer'', image_name = ''cloudy.png'', background = ''cloudy''\<rparr>),
    (95, \<lparr>condition = ''Gewitter'', image_name = ''sunny_rain.png'', background = ''cloudy''\<rparr>),
    (96, \<lparr>condition = ''Gewitter & Hagel'', image_name = ''sunny_rain.png'', background = ''cloudy''\<rparr>),
    (99, \<lparr>condition = ''Schweres Gewitter'', image_name = ''sunny_rain.png'', background = ''cloudy''\<rparr>)]"

text \<open>
  \<open>weatherCodeMap[weatherCode] || defaultWeather\<close>: every entry of the table is an
  object, hence truthy, so the default is taken exactly when the key is absent.
\<close>

definition getWeatherInfo :: "int \<Rightarrow> weather_info" where
  "getWeatherInfo code =
     (let defaultWeather = \<lparr>condition = ''Klarer Himmel'', image_name = ''sunny.png'', background = ''sunny''\<rparr>
      in case map_of weatherCodeMap code of Some info \<Rightarrow> info | None \<Rightarrow> defaultWeather)"

definition getBerlinCoordinates :: Coordinates where
  "getBerlinCoordinates =
     \<lparr>lat = 5252 / 100, lon = 13405 / 1000, name = ''Berlin'',
      ccountry = Some ''Deutschland'',
      cpostcodes = Some [''10115'', ''10117'', ''10119'']\<rparr>"

section \<open>The browser environment\<close>

text \<open>
  \<open>localStorage\<close> holds strings. A stored string is represented by what
  \<open>JSON.parse\<close> makes of it: \<open>Json v\<close> is a JSON text that parses to \<open>v\<close>,
  \<open>Raw s\<close> is a string \<open>s\<close> that is not a JSON text (the empty string included),
  on which \<open>JSON.parse\<close> throws. Reading or writing throws when the storage is not
  accessible (disabled storage), and writing throws when the quota is exhausted.
\<close>

datatype item = Raw string | Json jsval

record storage =
  accessible :: bool
  writable :: bool
  items :: "string \<rightharpoonup> item"

datatype level = Log | Warn | Err

text \<open>The bodies the two Open-Meteo endpoints answer with, and the shapes that make decoding fail.\<close>

record geo_result =
  latitude :: rat
  longitude :: rat
  gname :: string
  gcountry :: "string option"
  admin1 :: "string option"
  gpostcodes :: "string list option"

record current =
  temperature_2m :: rat
  relative_humidity_2m :: rat
  apparent_temperature :: rat
  weather_code :: int
  wind_speed_10m :: rat

datatype json_body =
    Unparseable
  | JsonNull
  | GeoBody "geo_result list option"
  | ForecastBody "current option"

datatype reply = Rejected | Response nat json_body

datatype request = GeoRequest string | ForecastRequest rat rat

text \<open>
  A DOM element is the bag of the properties the scripts touch. A \<open>querySelector\<close>
  that finds nothing gives \<open>null\<close>, so the page holds \<open>element option\<close>.
\<close>

record element =
  textContent :: string
  innerHTML :: string
  hidden :: bool
  disabled :: bool
  display :: string
  classList :: "string list"
  src :: string
  alt :: string
  onerror :: "(string \<times> string) option"
  val :: string
  placeholder :: string
  focused :: bool
  attrs :: "(string \<times> string) list"

record page =
  button :: "element option"
  search :: "element option"
  temperatureDisplay :: "element option"
  feelsLikeDisplay :: "element option"
  weatherTypeDisplay :: "element option"
  cityDisplay :: "element option"
  weatherImage :: "element option"
  postalCodesDisplay :: "element option"
  weatherDataSection :: "element option"
  weatherLoadingSection :: "element option"
  humidityDisplay :: "element option"
  windSpeedDisplay :: "element option"
  loadingIndicator :: "element option"
  body :: element
  announcements :: "string list"

text \<open>Callbacks handed to \<open>setTimeout\<close>; they are recorded with their delay, not run.\<close>

datatype task =
    RemoveFadeIn
  | ThemeUpdate int
  | RemoveAnnouncement string

text \<open>
  The state the scripts run against. \<open>network\<close> is the script of the replies the
  successive \<open>fetch\<close> calls will get (none left: the request is rejected);
  \<open>requests\<close> logs the requests made; \<open>now\<close> is the clock \<open>Date.now()\<close> reads;
  \<open>console\<close> keeps the level and the leading text of each console call. An
  \<open>await\<close> is modelled as returning at once: no other event runs in between.
\<close>

record world =
  localStorage :: storage
  now :: int
  network :: "reply list"
  requests :: "request list"
  console :: "(level \<times> string) list"
  document :: page
  timers :: "(nat \<times> task) list"
  currentCoordinates :: "Coordinates option"

definition console_log :: "level \<Rightarrow> string \<Rightarrow> world \<Rightarrow> world" where
  "console_log l msg w = w\<lparr>console := console w @ [(l, msg)]\<rparr>"

definition getItem :: "string \<Rightarrow> world \<Rightarrow> error + item option" where
  "getItem k w =
     (if accessible (localStorage w) then Inr (items (localStorage w) k)
      else Inl SecurityError)"

definition setItem :: "string \<Rightarrow> item \<Rightarrow> world \<Rightarrow> error + world" where
  "setItem k v w =
     (if \<not> accessible (localStorage w) then Inl SecurityError
      else if \<not> writable (localStorage w) then Inl QuotaExceededError
      else Inr (w\<lparr>localStorage := (localStorage w)\<lparr>items := (items (localStorage w))(k \<mapsto> v)\<rparr>\<rparr>))"

definition removeItem :: "string \<Rightarrow> world \<Rightarrow> error + world" where
  "removeItem k w =
     (if accessible (localStorage w)
      then Inr (w\<lparr>localStorage := (localStorage w)\<lparr>items := (items (localStorage w))(k := None)\<rparr>\<rparr>)
      else Inl SecurityError)"

fun JSON_parse :: "item \<Rightarrow> error + jsval" where
  "JSON_parse (Raw s) = Inl SyntaxError"
| "JSON_parse (Json v) = Inr v"

definition fetch :: "request \<Rightarrow> world \<Rightarrow> reply \<times> world" where
  "fetch rq w =
     (case network w of
        [] \<Rightarrow> (Rejected, w\<lparr>requests := requests w @ [rq]\<rparr>)
      | r # rs \<Rightarrow> (r, w\<lparr>network := rs, requests := requests w @ [rq]\<rparr>))"

section \<open>storage.ts\<close>

definition STORAGE_KEY :: string where
  "STORAGE_KEY = ''weather-app-last-city''"

record StoredCity = Coordinates +
  timestamp :: int
  searchText :: string

text \<open>
  \<open>JSON.stringify\<close> of a \<open>StoredCity\<close>: the properties in the order the object
  literal creates them; a property whose value is \<open>undefined\<close> is left out.
\<close>

definition JSON_stringify :: "StoredCity \<Rightarrow> item" where
  "JSON_stringify c =
     Json (JObj
       ([(''lat'', JNum (lat c)), (''lon'', JNum (lon c)), (''name'', JStr (name c))]
        @ (case ccountry c of None \<Rightarrow> [] | Some s \<Rightarrow> [(''country'', JStr s)])
        @ (case cpostcodes c of None \<Rightarrow> [] | Some ps \<Rightarrow> [(''postcodes'', JArr (map JStr ps))])
        @ [(''timestamp'', JNum (of_int (timestamp c))), (''searchText'', JStr (searchText c))]))"

definition saveLastCity :: "Coordinates \<Rightarrow> string \<Rightarrow> world \<Rightarrow> world" where
  "saveLastCity coordinates text w =
     (let cityData =
        \<lparr>lat = lat coordinates, lon = lon coordinates, name = name coordinates,
         ccountry = ccountry coordinates, cpostcodes = cpostcodes coordinates,
         timestamp = now w, searchText = text\<rparr>
      in case setItem STORAGE_KEY (JSON_stringify cityData) w of
           Inr w' \<Rightarrow> console_log Log ''Saved last city:'' w'
         | Inl e \<Rightarrow> console_log Warn ''Failed to save city to localStorage:'' w)"

definition clearLastCity :: "world \<Rightarrow> world" where
  "clearLastCity w =
     (case removeItem STORAGE_KEY w of
        Inr w' \<Rightarrow> console_log Log ''Cleared stored city data'' w'
      | Inl e \<Rightarrow> console_log Warn ''Failed to clear stored city data:'' w)"

text \<open>
  \<open>(Date.now() - cityData.timestamp) / (1000 * 60 * 60)\<close>: the subtraction converts
  the timestamp and throws when the conversion does; a comparison with \<open>NaN\<close> is false.
\<close>

definition ageInHours :: "host \<Rightarrow> world \<Rightarrow> jsval \<Rightarrow> error + rat option" where
  "ageInHours H w ts =
     (case ToNumber H ts of
        Inl e \<Rightarrow> Inl e
      | Inr n \<Rightarrow> Inr (map_option (\<lambda>t. (of_int (now w) - t) / (1000 * 60 * 60)) n))"

definition expired :: "rat option \<Rightarrow> rat \<Rightarrow> bool" where
  "expired age maxAgeHours = (case age of None \<Rightarrow> False | Some a \<Rightarrow> a > maxAgeHours)"

text \<open>The body of the \<open>try\<close> block of \<open>getLastCity\<close>; \<open>Inl\<close> is a thrown exception.\<close>

definition getLastCity_try :: "host \<Rightarrow> rat \<Rightarrow> world \<Rightarrow> error + (jsval option \<times> world)" where
  "getLastCity_try H maxAgeHours w =
     (case getItem STORAGE_KEY w of
        Inl e \<Rightarrow> Inl e
      | Inr None \<Rightarrow> Inr (None, w)
      | Inr (Some stored) \<Rightarrow>
          if stored = Raw [] then Inr (None, w)
          else
            (case JSON_parse stored of
               Inl e \<Rightarrow> Inl e
             | Inr cityData \<Rightarrow>
                 (case get_field ''timestamp'' cityData of
                    Inl e \<Rightarrow> Inl e
                  | Inr ts \<Rightarrow>
                 (case ageInHours H w ts of
                    Inl e \<Rightarrow> Inl e
                  | Inr age \<Rightarrow>
                      if expired age maxAgeHours then
                        Inr (None, clearLastCity
                               (console_log Log ''Stored city data expired, removing...'' w))
                      else
                        (case get_field ''lat'' cityData of
                           Inl e \<Rightarrow> Inl e
                         | Inr la \<Rightarrow>
                        (case get_field ''lon'' cityData of
                           Inl e \<Rightarrow> Inl e
                         | Inr lo \<Rightarrow>
                        (case get_field ''name'' cityData of
                           Inl e \<Rightarrow> Inl e
                         | Inr na \<Rightarrow>
                             if \<not> truthy la \<or> \<not> truthy lo \<or> \<not> truthy na then
                               Inr (None, clearLastCity
                                      (console_log Warn ''Invalid stored city data, removing...'' w))
                             else
                               Inr (Some cityData,
                                    console_log Log ''Retrieved last city:'' w))))))))"

definition getLastCity :: "host \<Rightarrow> rat \<Rightarrow> world \<Rightarrow> jsval option \<times> world" where
  "getLastCity H maxAgeHours w =
     (case getLastCity_try H maxAgeHours w of
        Inr r \<Rightarrow> r
      | Inl e \<Rightarrow>
          (None, clearLastCity
                   (console_log Warn ''Failed to retrieve city from localStorage:'' w)))"

definition isStorageAvailable :: "world \<Rightarrow> bool \<times> world" where
  "isStorageAvailable w =
     (case setItem ''test-storage'' (Raw ''test'') w of
        Inl e \<Rightarrow> (False, w)
      | Inr w1 \<Rightarrow>
          (case removeItem ''test-storage'' w1 of
             Inl e \<Rightarrow> (False, w1)
           | Inr w2 \<Rightarrow> (True, w2)))"

text \<open>The record stored under the cache key, when the storage can be read.\<close>

definition stored_record :: "world \<Rightarrow> item option" where
  "stored_record w = items (localStorage w) STORAGE_KEY"

section \<open>weather-api.ts: functions\<close>

text \<open>\<open>response.ok\<close>: a status from 200 to 299.\<close>

definition ok :: "nat \<Rightarrow> bool" where
  "ok status = (200 \<le> status \<and> status \<le> 299)"

text \<open>\<open>a || b\<close> on optional strings: the empty string is falsy.\<close>

definition or_else :: "string option \<Rightarrow> string option \<Rightarrow> string option" where
  "or_else a b = (case a of None \<Rightarrow> b | Some s \<Rightarrow> if s = [] then b else Some s)"

text \<open>\<open>postcodes || []\<close>: an array is truthy even when empty.\<close>

definition or_empty :: "string list option \<Rightarrow> string list" where
  "or_empty a = (case a of None \<Rightarrow> [] | Some ps \<Rightarrow> ps)"

definition toCoordinates :: "geo_result \<Rightarrow> Coordinates" where
  "toCoordinates result =
     \<lparr>lat = latitude result, lon = longitude result, name = gname result,
      ccountry = or_else (gcountry result) (admin1 result),
      cpostcodes = Some (or_empty (gpostcodes result))\<rparr>"

text \<open>
  The \<open>try\<close> block of \<open>searchCities\<close>. The request is logged with the trimmed query
  (\<open>encodeURIComponent\<close>, which cannot throw on code units below 256, and the fixed
  parameters are left out). A rejected
  \<open>fetch\<close>, the \<open>throw\<close> on a bad status, a body \<open>response.json()\<close> cannot
  decode and \<open>data.results\<close> on \<open>null\<close> are the exceptions.
\<close>

definition searchCities_try :: "string \<Rightarrow> world \<Rightarrow> (error + Coordinates list) \<times> world" where
  "searchCities_try query w =
     (case fetch (GeoRequest (trim query)) w of
        (Rejected, w1) \<Rightarrow> (Inl NetworkError, w1)
      | (Response status data, w1) \<Rightarrow>
          if \<not> ok status then (Inl (Error (''Geocoding API error: '' @ show_nat status)), w1)
          else
            (case data of
               Unparseable \<Rightarrow> (Inl SyntaxError, w1)
             | JsonNull \<Rightarrow> (Inl TypeError, w1)
             | ForecastBody c \<Rightarrow> (Inr [], w1)
             | GeoBody None \<Rightarrow> (Inr [], w1)
             | GeoBody (Some results) \<Rightarrow> (Inr (map toCoordinates results), w1)))"

definition searchCities :: "string \<Rightarrow> world \<Rightarrow> (error + Coordinates list) \<times> world" where
  "searchCities query w =
     (if trim query = [] then (Inr [], w)
      else
        (case searchCities_try query w of
           (Inr cities, w1) \<Rightarrow> (Inr cities, w1)
         | (Inl e, w1) \<Rightarrow> (Inr [], console_log Err ''Error searching cities:'' w1)))"

text \<open>
  The \<open>try\<close> block of \<open>getCurrentWeather\<close>; a body without \<open>current\<close> makes
  \<open>current.weather_code\<close> throw.
\<close>

definition getCurrentWeather_try :: "Coordinates \<Rightarrow> world \<Rightarrow> (error + WeatherData) \<times> world" where
  "getCurrentWeather_try coordinates w =
     (case fetch (ForecastRequest (lat coordinates) (lon coordinates)) w of
        (Rejected, w1) \<Rightarrow> (Inl NetworkError, w1)
      | (Response status data, w1) \<Rightarrow>
          if \<not> ok status then (Inl (Error (''Weather API error: '' @ show_nat status)), w1)
          else
            (case data of
               Unparseable \<Rightarrow> (Inl SyntaxError, w1)
             | JsonNull \<Rightarrow> (Inl TypeError, w1)
             | GeoBody r \<Rightarrow> (Inl TypeError, w1)
             | ForecastBody None \<Rightarrow> (Inl TypeError, w1)
             | ForecastBody (Some cur) \<Rightarrow>
                 (let weatherInfo = getWeatherInfo (weather_code cur) in
                  (Inr \<lparr>temperature = Math_round (temperature_2m cur),
                        feelsLike = Math_round (apparent_temperature cur),
                        humidity = relative_humidity_2m cur,
                        windSpeed = of_int (Math_round (wind_speed_10m cur * 10)) / 10,
                        weatherCode = weather_code cur,
                        weatherDescription = condition weatherInfo,
                        cityName = name coordinates,
                        country = or_else (ccountry coordinates) None,
                        postcodes = Some (or_empty (cpostcodes coordinates))\<rparr>, w1))))"

definition getCurrentWeather :: "Coordinates \<Rightarrow> world \<Rightarrow> (error + WeatherData) \<times> world" where
  "getCurrentWeather coordinates w =
     (case getCurrentWeather_try coordinates w of
        (Inr weatherData, w1) \<Rightarrow> (Inr weatherData, w1)
      | (Inl e, w1) \<Rightarrow>
          (Inl (Error ''Fehler beim Laden der Wetterdaten. Bitte versuchen Sie es erneut.''),
           console_log Err ''Error fetching weather data:'' w1))"

section \<open>index.ts\<close>

text \<open>
  Every element is used under an \<open>if\<close> that tests it for \<open>null\<close>, so a property
  is assigned through \<open>map_option\<close>: nothing happens when the element is missing.
\<close>

definition classList_add :: "string \<Rightarrow> string list \<Rightarrow> string list" where
  "classList_add c cs = (if c \<in> set cs then cs else cs @ [c])"

definition classList_remove :: "string \<Rightarrow> string list \<Rightarrow> string list" where
  "classList_remove c cs = filter (\<lambda>x. x \<noteq> c) cs"

definition showLoadingState :: "world \<Rightarrow> world" where
  "showLoadingState w =
     w\<lparr>document := (document w)
       \<lparr>weatherLoadingSection := map_option (\<lambda>e. e\<lparr>hidden := False\<rparr>) (weatherLoadingSection (document w)),
        weatherDataSection := map_option (\<lambda>e. e\<lparr>hidden := True\<rparr>) (weatherDataSection (document w))\<rparr>\<rparr>"

definition showWeatherData :: "world \<Rightarrow> world" where
  "showWeatherData w =
     w\<lparr>document := (document w)
       \<lparr>weatherLoadingSection := map_option (\<lambda>e. e\<lparr>hidden := True\<rparr>) (weatherLoadingSection (document w)),
        weatherDataSection :=
          map_option (\<lambda>e. e\<lparr>hidden := False, classList := classList_add ''fade-in'' (classList e)\<rparr>)
            (weatherDataSection (document w))\<rparr>,
       timers := (if weatherDataSection (document w) = None then timers w
                  else timers w @ [(500, RemoveFadeIn)])\<rparr>"

text \<open>
  The text of the postal-code line, for a non-empty list: the first code, then the second
  and third, then the count of those beyond the third.
\<close>

definition postalText :: "string list \<Rightarrow> string" where
  "postalText ps =
     ''PLZ: '' @ ps ! 0
     @ (if length ps > 1 then
          '', '' @ join '', '' (slice 1 3 ps)
          @ (if length ps > 3 then '', +'' @ show_nat (length ps - 3) @ '' more'' else [])
        else [])"

definition updateWeatherDisplay :: "host \<Rightarrow> WeatherData \<Rightarrow> world \<Rightarrow> world" where
  "updateWeatherDisplay H weatherData w =
     (let d = document w;
          fullCityName =
            (case or_else (country weatherData) None of
               Some c \<Rightarrow> cityName weatherData @ '', '' @ c
             | None \<Rightarrow> cityName weatherData);
          weatherInfo = getWeatherInfo (weatherCode weatherData);
          d1 = d\<lparr>
            temperatureDisplay := map_option
              (\<lambda>e. e\<lparr>textContent := NumberToString H (of_int (temperature weatherData)) @ [CHR 0xB0] @ ''C''\<rparr>)
              (temperatureDisplay d),
            feelsLikeDisplay := map_option
              (\<lambda>e. e\<lparr>textContent := NumberToString H (of_int (feelsLike weatherData)) @ [CHR 0xB0] @ ''C''\<rparr>)
              (feelsLikeDisplay d),
            weatherTypeDisplay := map_option
              (\<lambda>e. e\<lparr>textContent := weatherDescription weatherData\<rparr>) (weatherTypeDisplay d),
            cityDisplay := map_option (\<lambda>e. e\<lparr>textContent := fullCityName\<rparr>) (cityDisplay d),
            postalCodesDisplay := map_option
              (\<lambda>e. case postcodes weatherData of
                      None \<Rightarrow> e\<lparr>display := ''none''\<rparr>
                    | Some ps \<Rightarrow>
                        if length ps > 0
                        then e\<lparr>textContent := postalText ps, display := ''block''\<rparr>
                        else e\<lparr>display := ''none''\<rparr>)
              (postalCodesDisplay d),
            humidityDisplay := map_option
              (\<lambda>e. e\<lparr>textContent := NumberToString H (humidity weatherData) @ ''%''\<rparr>)
              (humidityDisplay d),
            windSpeedDisplay := map_option
              (\<lambda>e. e\<lparr>textContent := NumberToString H (windSpeed weatherData) @ '' km/h''\<rparr>)
              (windSpeedDisplay d),
            weatherImage := map_option
              (\<lambda>e. e\<lparr>src := ''./assets/images/'' @ image_name weatherInfo,
                      alt := weatherDescription weatherData @ '' weather conditions in ''
                             @ cityName weatherData,
                      onerror := Some (''./assets/images/sunny.png'',
                                       ''Weather conditions in '' @ cityName weatherData)\<rparr>)
              (weatherImage d)\<rparr>;
          w1 = showWeatherData (w\<lparr>document := d1\<rparr>)
      in w1\<lparr>timers := timers w1 @ [(100, ThemeUpdate (weatherCode weatherData))]\<rparr>)"

text \<open>The timer callback of \<open>updateWeatherDisplay\<close>, with its animation frame run at once.\<close>

definition updateBackgroundTheme :: "string \<Rightarrow> world \<Rightarrow> world" where
  "updateBackgroundTheme backgroundType w =
     w\<lparr>document := (document w)\<lparr>body := (body (document w))
       \<lparr>classList :=
          classList_add backgroundType
            (classList_remove ''cloudy'' (classList_remove ''sunny''
              (classList_add ''background-loaded'' (classList (body (document w))))))\<rparr>\<rparr>\<rparr>"

definition generateSearchText :: "Coordinates \<Rightarrow> string" where
  "generateSearchText coordinates =
     name coordinates
     @ (case or_else (ccountry coordinates) None of Some c \<Rightarrow> '', '' @ c | None \<Rightarrow> [])
     @ (case cpostcodes coordinates of
          None \<Rightarrow> []
        | Some ps \<Rightarrow> if length ps > 0 then '' (PLZ: '' @ ps ! 0 @ '')'' else [])"

definition announceWeatherUpdate :: "host \<Rightarrow> string \<Rightarrow> int \<Rightarrow> string \<Rightarrow> world \<Rightarrow> world" where
  "announceWeatherUpdate H city temp weatherType w =
     (let announcement =
        ''Wetter aktualisiert f'' @ [CHR 0xFC] @ ''r '' @ city @ ''. Aktuelle Bedingungen: ''
        @ weatherType @ '', '' @ NumberToString H (of_int temp) @ '' Grad Celsius.''
      in w\<lparr>document := (document w)\<lparr>announcements := announcements (document w) @ [announcement]\<rparr>,
           timers := timers w @ [(1000, RemoveAnnouncement announcement)]\<rparr>)"

text \<open>
  The \<open>try\<close> block of \<open>fetchWeatherData\<close>. Its first statements show the
  spinner, when asked to, and put the button in its busy state; the rest gives the
  exception, if one was thrown, and the state reached. \<open>saveLastCity\<close> catches its own
  failures, so the inner \<open>try\<close> has nothing to catch.
\<close>

definition fetchWeatherData_begin :: "bool \<Rightarrow> world \<Rightarrow> world" where
  "fetchWeatherData_begin showLoading w =
     (let w1 = (if showLoading then showLoadingState w else w)
      in w1\<lparr>document := (document w1)\<lparr>button := map_option
              (\<lambda>e. e\<lparr>disabled := True,
                      innerHTML := ''<span class=\"button-text\">L'' @ [CHR 0xE4] @ ''dt...</span>''\<rparr>)
              (button (document w1))\<rparr>\<rparr>)"

definition fetchWeatherData_try ::
  "host \<Rightarrow> Coordinates \<Rightarrow> bool \<Rightarrow> bool \<Rightarrow> world \<Rightarrow> error option \<times> world" where
  "fetchWeatherData_try H coordinates saveToStorage showLoading w =
     (case getCurrentWeather coordinates (fetchWeatherData_begin showLoading w) of
        (Inl e, w3) \<Rightarrow> (Some e, w3)
      | (Inr weatherData, w3) \<Rightarrow>
          (let w4 = updateWeatherDisplay H weatherData w3;
               w5 = (if saveToStorage then
                       (case isStorageAvailable w4 of
                          (True, w') \<Rightarrow> saveLastCity coordinates (generateSearchText coordinates) w'
                        | (False, w') \<Rightarrow> w')
                     else w4)
           in (None, announceWeatherUpdate H (cityName weatherData) (temperature weatherData)
                       (weatherDescription weatherData) w5)))"

text \<open>The \<open>catch\<close> and the \<open>finally\<close> block of \<open>fetchWeatherData\<close>.\<close>

definition fetchWeatherData_catch :: "world \<Rightarrow> world" where
  "fetchWeatherData_catch w =
     (let w1 = showWeatherData (console_log Err ''Error fetching weather:'' w)
      in w1\<lparr>document := (document w1)
           \<lparr>cityDisplay := map_option
              (\<lambda>e. e\<lparr>textContent := ''Fehler beim Laden der Wetterdaten''\<rparr>) (cityDisplay (document w1)),
            weatherTypeDisplay := map_option
              (\<lambda>e. e\<lparr>textContent := ''Bitte versuchen Sie es erneut''\<rparr>)
              (weatherTypeDisplay (document w1))\<rparr>\<rparr>)"

definition fetchWeatherData_finally :: "world \<Rightarrow> world" where
  "fetchWeatherData_finally w =
     w\<lparr>document := (document w)\<lparr>button := map_option
        (\<lambda>e. e\<lparr>disabled := False,
                innerHTML := ''<span class=\"button-text\">Wetter abrufen</span>''\<rparr>)
        (button (document w))\<rparr>\<rparr>"

text \<open>
  The exception component would be a rejection of the promise \<open>fetchWeatherData\<close>
  returns; the \<open>catch\<close> block takes every exception of the \<open>try\<close> block.
\<close>

definition fetchWeatherData ::
  "host \<Rightarrow> Coordinates \<Rightarrow> bool \<Rightarrow> bool \<Rightarrow> world \<Rightarrow> error option \<times> world" where
  "fetchWeatherData H coordinates saveToStorage showLoading w =
     (case fetchWeatherData_try H coordinates saveToStorage showLoading w of
        (None, w1) \<Rightarrow> (None, fetchWeatherData_finally w1)
      | (Some e, w1) \<Rightarrow> (None, fetchWeatherData_finally (fetchWeatherData_catch w1)))"

text \<open>
  The typed view of a record \<open>getLastCity\<close> returned: TypeScript takes it for a
  \<open>StoredCity\<close> without a check. \<open>None\<close> when it is not one; what the scripts do
  with such a record is outside this model.
\<close>

fun as_strings :: "jsval list \<Rightarrow> string list option" where
  "as_strings [] = Some []"
| "as_strings (JStr x # xs) = map_option ((#) x) (as_strings xs)"
| "as_strings (v # xs) = None"

definition as_Coordinates :: "jsval \<Rightarrow> Coordinates option" where
  "as_Coordinates v =
     (case v of
        JObj kvs \<Rightarrow>
          (case (map_of kvs ''lat'', map_of kvs ''lon'', map_of kvs ''name'') of
             (Some (JNum la), Some (JNum lo), Some (JStr n)) \<Rightarrow>
               (case (case map_of kvs ''country'' of
                        None \<Rightarrow> Some None
                      | Some (JStr c) \<Rightarrow> Some (Some c)
                      | Some x \<Rightarrow> None) of
                  None \<Rightarrow> None
                | Some co \<Rightarrow>
                    (case (case map_of kvs ''postcodes'' of
                             None \<Rightarrow> Some None
                           | Some (JArr xs) \<Rightarrow> map_option Some (as_strings xs)
                           | Some x \<Rightarrow> None) of
                       None \<Rightarrow> None
                     | Some po \<Rightarrow>
                         Some \<lparr>lat = la, lon = lo, name = n, ccountry = co, cpostcodes = po\<rparr>))
           | other \<Rightarrow> None)
      | other \<Rightarrow> None)"

definition initializePageState :: "host \<Rightarrow> world \<Rightarrow> world" where
  "initializePageState H w =
     (case getLastCity H 24 w of
        (Some lastCity, w1) \<Rightarrow>
          w1\<lparr>document := (document w1)
            \<lparr>weatherLoadingSection := map_option (\<lambda>e. e\<lparr>hidden := False\<rparr>) (weatherLoadingSection (document w1)),
             weatherDataSection := map_option (\<lambda>e. e\<lparr>hidden := True\<rparr>) (weatherDataSection (document w1))\<rparr>\<rparr>
      | (None, w1) \<Rightarrow>
          w1\<lparr>document := (document w1)
            \<lparr>weatherLoadingSection := map_option (\<lambda>e. e\<lparr>hidden := True\<rparr>) (weatherLoadingSection (document w1)),
             weatherDataSection := map_option (\<lambda>e. e\<lparr>hidden := False\<rparr>) (weatherDataSection (document w1))\<rparr>\<rparr>)"

text \<open>
  The statements the \<open>else\<close> branch and the \<open>catch\<close> block of
  \<open>loadInitialWeather\<close> have in common: hide the loading section, fetch Berlin without
  saving and without spinner, then set the placeholder and the current coordinates.
\<close>

definition loadBerlin :: "host \<Rightarrow> world \<Rightarrow> error option \<times> world" where
  "loadBerlin H w =
     (let w1 = w\<lparr>document := (document w)\<lparr>weatherLoadingSection :=
                  map_option (\<lambda>e. e\<lparr>hidden := True\<rparr>) (weatherLoadingSection (document w))\<rparr>\<rparr>;
          berlinCoords = getBerlinCoordinates
      in case fetchWeatherData H berlinCoords False False w1 of
           (Some e, w2) \<Rightarrow> (Some e, w2)
         | (None, w2) \<Rightarrow>
             (None, w2\<lparr>document := (document w2)\<lparr>search := map_option
                      (\<lambda>e. e\<lparr>placeholder := ''Aktuell: '' @ generateSearchText berlinCoords, val := []\<rparr>)
                      (search (document w2))\<rparr>,
                    currentCoordinates := Some berlinCoords\<rparr>))"

text \<open>The \<open>try\<close> block of \<open>loadInitialWeather\<close>.\<close>

definition loadInitialWeather_try :: "host \<Rightarrow> world \<Rightarrow> (error option \<times> world) option" where
  "loadInitialWeather_try H w =
     (case getLastCity H 24 w of
        (Some lastCity, w1) \<Rightarrow>
          (case as_Coordinates lastCity of
             None \<Rightarrow> None
           | Some coords \<Rightarrow>
               (let w2 = console_log Log ''Loading last saved city:'' w1;
                    w3 = w2\<lparr>document := (document w2)\<lparr>loadingIndicator :=
                           map_option (\<lambda>e. e\<lparr>hidden := False\<rparr>) (loadingIndicator (document w2))\<rparr>\<rparr>
                in case fetchWeatherData H coords False False w3 of
                     (Some e, w4) \<Rightarrow> Some (Some e, w4)
                   | (None, w4) \<Rightarrow>
                       (case get_field ''searchText'' lastCity of
                          Inl e \<Rightarrow> Some (Some e, w4)
                        | Inr text \<Rightarrow>
                            (case ToString H text of
                               Inl e \<Rightarrow> Some (Some e, w4)
                             | Inr shown \<Rightarrow>
                                 Some (None,
                                   w4\<lparr>document := (document w4)\<lparr>search := map_option
                                         (\<lambda>e. e\<lparr>placeholder := ''Aktuell: '' @ shown, val := []\<rparr>)
                                         (search (document w4))\<rparr>,
                                      currentCoordinates := Some coords\<rparr>)))))
      | (None, w1) \<Rightarrow>
          Some (loadBerlin H
                  (console_log Log ''No saved city found, loading Berlin default immediately'' w1)))"

definition loadInitialWeather_finally :: "world \<Rightarrow> world" where
  "loadInitialWeather_finally w =
     w\<lparr>document := (document w)\<lparr>loadingIndicator :=
          map_option (\<lambda>e. e\<lparr>hidden := True\<rparr>) (loadingIndicator (document w))\<rparr>\<rparr>"

definition loadInitialWeather :: "host \<Rightarrow> world \<Rightarrow> (error option \<times> world) option" where
  "loadInitialWeather H w =
     (case loadInitialWeather_try H w of
        None \<Rightarrow> None
      | Some (None, w1) \<Rightarrow> Some (None, loadInitialWeather_finally w1)
      | Some (Some e, w1) \<Rightarrow>
          (case loadBerlin H (console_log Err ''Error loading initial weather:'' w1) of
             (r, w2) \<Rightarrow> Some (r, loadInitialWeather_finally w2)))"

text \<open>
  The listeners of the \<open>citySelected\<close> event and of the button; both are registered
  only when the button and the search field exist.
\<close>

definition onCitySelected :: "host \<Rightarrow> Coordinates \<Rightarrow> world \<Rightarrow> error option \<times> world" where
  "onCitySelected H detail w =
     (if button (document w) = None \<or> search (document w) = None then (None, w)
      else fetchWeatherData H detail True True (w\<lparr>currentCoordinates := Some detail\<rparr>))"

definition onButtonClick :: "host \<Rightarrow> world \<Rightarrow> error option \<times> world" where
  "onButtonClick H w =
     (case (button (document w), search (document w)) of
        (Some b, Some field) \<Rightarrow>
          (case currentCoordinates w of
             Some coords \<Rightarrow> fetchWeatherData H coords True True w
           | None \<Rightarrow>
               if trim (val field) = [] then
                 (None, w\<lparr>document := (document w)\<lparr>search :=
                    Some (field\<lparr>focused := True,
                                 placeholder := ''Stadtname zum Suchen eingeben...''\<rparr>)\<rparr>\<rparr>)
               else
                 (case searchCities (trim (val field)) w of
                    (Inl e, w1) \<Rightarrow> (None, console_log Err ''Error searching for city:'' w1)
                  | (Inr [], w1) \<Rightarrow>
                      (None, w1\<lparr>document := (document w1)
                         \<lparr>cityDisplay := map_option
                            (\<lambda>e. e\<lparr>textContent := ''Stadt nicht gefunden''\<rparr>) (cityDisplay (document w1)),
                          weatherTypeDisplay := map_option
                            (\<lambda>e. e\<lparr>textContent := ''Bitte versuchen Sie eine andere Stadt''\<rparr>)
                            (weatherTypeDisplay (document w1))\<rparr>\<rparr>)
                  | (Inr (city # rest), w1) \<Rightarrow>
                      fetchWeatherData H city True True (w1\<lparr>currentCoordinates := Some city\<rparr>)))
      | other \<Rightarrow> (None, w))"

section \<open>search.ts\<close>

text \<open>
  The autocomplete keeps its own state: the input, the list element with its \<open>li\<close>
  children, the module variable \<open>currentResults\<close>, the \<open>selectedIndex\<close> of the
  closure of \<open>initSearch\<close>, the \<open>citySelected\<close> events dispatched so far and whether a
  debounce timer is armed. An \<open>li\<close> holds its text, its attributes, its cursor style and
  the city its click listener selects. The input is the same element as \<open>search\<close> of
  the page; the two scripts are modelled on separate copies of it.
\<close>

record li =
  li_text :: string
  li_attrs :: "(string \<times> string) list"
  li_cursor :: string
  li_city :: "Coordinates option"

record search_ts =
  search_el :: element
  results_el :: element
  children :: "li list"
  currentResults :: "Coordinates list"
  selectedIndex :: int
  dispatched :: "Coordinates list"
  armed :: bool

datatype key = ArrowDown | ArrowUp | Enter | Escape | OtherKey string

text \<open>\<open>setAttribute\<close>: replace the value of an attribute, or append a new one.\<close>

fun setAttribute :: "string \<Rightarrow> string \<Rightarrow> (string \<times> string) list \<Rightarrow> (string \<times> string) list" where
  "setAttribute k v [] = [(k, v)]"
| "setAttribute k v (p # ps) = (if fst p = k then (k, v) # ps else p # setAttribute k v ps)"

text \<open>The selector \<open>li[role="option"]\<close>; every child of the list is an \<open>li\<close>.\<close>

definition is_option :: "li \<Rightarrow> bool" where
  "is_option l = (map_of (li_attrs l) ''role'' = Some ''option'')"

definition querySelectorAll_options :: "search_ts \<Rightarrow> li list" where
  "querySelectorAll_options s = filter is_option (children s)"

text \<open>
  \<open>initSearch\<close> returns without registering anything when one of the two elements is
  missing; otherwise the listeners start from \<open>selectedIndex = -1\<close>.
\<close>

definition initSearch :: "element option \<Rightarrow> element option \<Rightarrow> li list \<Rightarrow> search_ts option" where
  "initSearch field list kids =
     (case (field, list) of
        (Some f, Some r) \<Rightarrow>
          Some \<lparr>search_el = f, results_el = r, children = kids, currentResults = [],
                selectedIndex = -1, dispatched = [], armed = False\<rparr>
      | other \<Rightarrow> None)"

definition hideResults :: "search_ts \<Rightarrow> search_ts" where
  "hideResults s =
     s\<lparr>children := [],
       results_el := (results_el s)\<lparr>hidden := True\<rparr>,
       search_el := (search_el s)\<lparr>attrs := setAttribute ''aria-expanded'' ''false'' (attrs (search_el s))\<rparr>\<rparr>"

text \<open>The text of one entry of the list.\<close>

definition cityText :: "Coordinates \<Rightarrow> string" where
  "cityText city =
     name city
     @ (case or_else (ccountry city) None of Some c \<Rightarrow> '', '' @ c | None \<Rightarrow> [])
     @ (case cpostcodes city of
          None \<Rightarrow> []
        | Some ps \<Rightarrow>
            if length ps > 0 then
              '' (PLZ: '' @ ps ! 0
              @ (if length ps > 1 then '', +'' @ show_nat (length ps - 1) @ '' more'' else [])
              @ '')''
            else [])"

definition make_li :: "Coordinates \<Rightarrow> nat \<Rightarrow> li" where
  "make_li city index =
     \<lparr>li_text = cityText city,
      li_attrs = [(''role'', ''option''), (''id'', ''result-'' @ show_nat index),
                  (''tabindex'', ''-1''), (''data-city-index'', show_nat index)],
      li_cursor = ''pointer'',
      li_city = Some city\<rparr>"

definition showResults :: "Coordinates list \<Rightarrow> search_ts \<Rightarrow> search_ts" where
  "showResults matches s =
     (if length matches = 0 then
        s\<lparr>currentResults := matches,
          children := [\<lparr>li_text = ''Keine Treffer gefunden'', li_attrs = [(''role'', ''option'')],
                        li_cursor = [], li_city = None\<rparr>],
          results_el := (results_el s)\<lparr>hidden := False\<rparr>,
          search_el := (search_el s)\<lparr>attrs := setAttribute ''aria-expanded'' ''true'' (attrs (search_el s))\<rparr>\<rparr>
      else
        s\<lparr>currentResults := matches,
          children := map (\<lambda>(city, index). make_li city index) (zip matches [0 ..< length matches]),
          results_el := (results_el s)\<lparr>hidden := False\<rparr>,
          search_el := (search_el s)\<lparr>attrs := setAttribute ''aria-expanded'' ''true'' (attrs (search_el s))\<rparr>\<rparr>)"

definition selectCity :: "Coordinates \<Rightarrow> search_ts \<Rightarrow> search_ts" where
  "selectCity city s =
     (let text =
            name city
            @ (case or_else (ccountry city) None of Some c \<Rightarrow> '', '' @ c | None \<Rightarrow> [])
            @ (case cpostcodes city of
                 None \<Rightarrow> []
               | Some ps \<Rightarrow> if length ps > 0 then '' (PLZ: '' @ ps ! 0 @ '')'' else []);
          s1 = s\<lparr>search_el := (search_el s)\<lparr>val := [], placeholder := ''Aktuell: '' @ text\<rparr>\<rparr>;
          s2 = hideResults s1
      in s2\<lparr>dispatched := dispatched s2 @ [city]\<rparr>)"

text \<open>
  \<open>updateSelection\<close>: the loop over the option items, \<open>i\<close> counting them; the result
  is the children with their \<open>aria-selected\<close> set and the id of the selected item, if
  one was met.
\<close>

fun updateSelection_loop :: "int \<Rightarrow> nat \<Rightarrow> li list \<Rightarrow> li list \<times> string option" where
  "updateSelection_loop sel i [] = ([], None)"
| "updateSelection_loop sel i (l # ls) =
     (if \<not> is_option l then
        (case updateSelection_loop sel i ls of (ls', act) \<Rightarrow> (l # ls', act))
      else if int i = sel then
        (case updateSelection_loop sel (Suc i) ls of
           (ls', act) \<Rightarrow>
             (l\<lparr>li_attrs := setAttribute ''aria-selected'' ''true'' (li_attrs l)\<rparr> # ls',
              (case act of
                 None \<Rightarrow> Some (case map_of (li_attrs l) ''id'' of None \<Rightarrow> [] | Some x \<Rightarrow> x)
               | Some later \<Rightarrow> Some later)))
      else
        (case updateSelection_loop sel (Suc i) ls of
           (ls', act) \<Rightarrow>
             (l\<lparr>li_attrs := setAttribute ''aria-selected'' ''false'' (li_attrs l)\<rparr> # ls', act)))"

definition updateSelection :: "int \<Rightarrow> search_ts \<Rightarrow> search_ts" where
  "updateSelection sel s =
     (case updateSelection_loop sel 0 (children s) of
        (kids, act) \<Rightarrow>
          s\<lparr>children := kids,
            search_el :=
              (case act of
                 None \<Rightarrow> search_el s
               | Some ident \<Rightarrow>
                   (search_el s)\<lparr>attrs := setAttribute ''aria-activedescendant'' ident (attrs (search_el s))\<rparr>)\<rparr>)"

text \<open>The \<open>keydown\<close> listener of the input.\<close>

definition keydown :: "key \<Rightarrow> search_ts \<Rightarrow> search_ts" where
  "keydown e s =
     (let items = querySelectorAll_options s in
      case e of
        ArrowDown \<Rightarrow>
          (let sel = min (selectedIndex s + 1) (int (length items) - 1)
           in updateSelection sel (s\<lparr>selectedIndex := sel\<rparr>))
      | ArrowUp \<Rightarrow>
          (let sel = max (selectedIndex s - 1) (- 1)
           in updateSelection sel (s\<lparr>selectedIndex := sel\<rparr>))
      | Enter \<Rightarrow>
          if selectedIndex s \<ge> 0 \<and> selectedIndex s < int (length (currentResults s))
             \<and> selectedIndex s < int (length items)
          then selectCity (currentResults s ! nat (selectedIndex s)) s
          else s
      | Escape \<Rightarrow> (hideResults s)\<lparr>selectedIndex := - 1\<rparr>
      | OtherKey k \<Rightarrow> s)"

text \<open>The \<open>input\<close> listener arms the debounce timer; this is the callback it runs 300 ms later.\<close>

definition onInput :: "search_ts \<Rightarrow> search_ts" where
  "onInput s = s\<lparr>armed := True\<rparr>"

definition debounced :: "search_ts \<Rightarrow> world \<Rightarrow> search_ts \<times> world" where
  "debounced s w =
     (let s0 = s\<lparr>armed := False\<rparr>; v = trim (val (search_el s0)) in
      if v = [] then (hideResults s0, w)
      else
        (case searchCities v w of
           (Inr matches, w1) \<Rightarrow> ((showResults matches s0)\<lparr>selectedIndex := - 1\<rparr>, w1)
         | (Inl e, w1) \<Rightarrow> (showResults [] s0, console_log Err ''Error searching cities:'' w1)))"

text \<open>The click outside the input and the list.\<close>

definition onClickOutside :: "search_ts \<Rightarrow> search_ts" where
  "onClickOutside s = hideResults s"

section \<open>A concrete page\<close>

text \<open>
  The states the closed examples start from. \<open>example_host\<close> prints a number in
  decimal (exact for a decimal fraction of up to 17 places) and reads a string of decimal
  digits, or an empty one, as a number; every theorem below holds for any host.
\<close>

fun frac_digits :: "nat \<Rightarrow> rat \<Rightarrow> string" where
  "frac_digits 0 r = []"
| "frac_digits (Suc n) r =
     (if r = 0 then []
      else char_of (48 + nat \<lfloor>r * 10\<rfloor>) # frac_digits n (r * 10 - of_int \<lfloor>r * 10\<rfloor>))"

definition show_rat :: "rat \<Rightarrow> string" where
  "show_rat r =
     (if r < 0 then ''-'' else [])
     @ show_nat (nat \<lfloor>\<bar>r\<bar>\<rfloor>)
     @ (if frac \<bar>r\<bar> = 0 then [] else ''.'' @ frac_digits 17 (frac \<bar>r\<bar>))"

fun read_digits :: "nat \<Rightarrow> string \<Rightarrow> nat option" where
  "read_digits acc [] = Some acc"
| "read_digits acc (c # cs) =
     (if 48 \<le> (of_char c :: nat) \<and> (of_char c :: nat) \<le> 57
      then read_digits (10 * acc + (of_char c - 48)) cs
      else None)"

definition example_host :: host where
  "example_host =
     \<lparr>NumberToString = show_rat,
      StringToNumber = (\<lambda>s. map_option of_nat (read_digits 0 s))\<rparr>"

definition blank :: element where
  "blank =
     \<lparr>textContent = [], innerHTML = [], hidden = False, disabled = False, display = [],
      classList = [], src = [], alt = [], onerror = None, val = [], placeholder = [],
      focused = False, attrs = []\<rparr>"

definition example_page :: page where
  "example_page =
     \<lparr>button = Some blank, search = Some blank, temperatureDisplay = Some blank,
      feelsLikeDisplay = Some blank, weatherTypeDisplay = Some blank,
      cityDisplay = Some blank, weatherImage = Some blank,
      postalCodesDisplay = Some blank, weatherDataSection = Some blank,
      weatherLoadingSection = Some blank, humidityDisplay = Some blank,
      windSpeedDisplay = Some blank, loadingIndicator = Some blank,
      body = blank, announcements = []\<rparr>"

text \<open>A working, empty storage; the clock at 14 November 2023; no reply scripted.\<close>

definition example_world :: world where
  "example_world =
     \<lparr>localStorage = \<lparr>accessible = True, writable = True, items = Map.empty\<rparr>,
      now = 1700000000000, network = [], requests = [], console = [],
      document = example_page, timers = [], currentCoordinates = None\<rparr>"

text \<open>The example storage holding one JSON record, and two records for Berlin.\<close>

definition example_cached :: "jsval \<Rightarrow> world" where
  "example_cached v =
     example_world\<lparr>localStorage :=
       \<lparr>accessible = True, writable = True, items = [STORAGE_KEY \<mapsto> Json v]\<rparr>\<rparr>"

definition berlin_json :: "jsval \<Rightarrow> jsval" where
  "berlin_json ts =
     JObj [(''lat'', JNum (5252 / 100)), (''lon'', JNum (13405 / 1000)),
           (''name'', JStr ''Berlin''), (''timestamp'', ts), (''searchText'', JStr ''Berlin'')]"

definition undated_json :: jsval where
  "undated_json =
     JObj [(''lat'', JNum (5252 / 100)), (''lon'', JNum (13405 / 1000)),
           (''name'', JStr ''Berlin''), (''searchText'', JStr ''Berlin'')]"



definition berlin_weather :: WeatherData where
  "berlin_weather =
     \<lparr>temperature = 7, feelsLike = 4, humidity = 81, windSpeed = 123 / 10, weatherCode = 3,
      weatherDescription = ''Bedeckt'', cityName = ''Berlin'', country = Some ''Deutschland'',
      postcodes = Some [''10115'', ''10117'', ''10119'']\<rparr>"

definition paris_json :: jsval where
  "paris_json =
     JObj [(''lat'', JNum (488566 / 10000)), (''lon'', JNum (23522 / 10000)),
           (''name'', JStr ''Paris''), (''country'', JStr ''France''),
           (''postcodes'', JArr [JStr ''75001'']),
           (''timestamp'', JNum 1699999000000), (''searchText'', JStr ''Paris, France (PLZ: 75001)'')]"

definition mild :: current where
  "mild = \<lparr>temperature_2m = 123 / 10, relative_humidity_2m = 70, apparent_temperature = 11,
            weather_code = 2, wind_speed_10m = 9\<rparr>"

definition odd_text_json :: jsval where
  "odd_text_json =
     JObj [(''lat'', JNum (488566 / 10000)), (''lon'', JNum (23522 / 10000)),
           (''name'', JStr ''Paris''), (''timestamp'', JNum 1699999000000),
           (''searchText'', JObj [(''toString'', JNum 1)])]"

definition cached_paris_offline :: world where
  "cached_paris_offline =
     (example_cached paris_json)\<lparr>network := [Rejected, Response 200 (ForecastBody (Some mild))]\<rparr>"

section \<open>Theorems\<close>

subsection \<open>The condition table\<close>

text \<open>
  C5. \<open>getWeatherInfo\<close> is a pure lookup: for every condition code that is not a key of
  the static table (9999, say) it returns the entry of code 0, the clear-sky default with
  its condition text, icon and theme, and it never fails.
\<close>

theorem getWeatherInfo_unknown_code:
  "code \<notin> fst ` set weatherCodeMap \<Longrightarrow>
     getWeatherInfo code = getWeatherInfo 0
     \<and> getWeatherInfo code =
         \<lparr>condition = ''Klarer Himmel'', image_name = ''sunny.png'', background = ''sunny''\<rparr>"
proof -
  assume "code \<notin> fst ` set weatherCodeMap"
  then have absent: "map_of weatherCodeMap code = None"
    by (simp add: map_of_eq_None_iff)
  have zero: "map_of weatherCodeMap 0 =
      Some \<lparr>condition = ''Klarer Himmel'', image_name = ''sunny.png'', background = ''sunny''\<rparr>"
    by (simp add: weatherCodeMap_def)
  show ?thesis
    by (simp add: getWeatherInfo_def absent zero)
qed

theorem getWeatherInfo_unknown_code_witness:
  "(9999::int) \<notin> fst ` set weatherCodeMap
   \<and> getWeatherInfo 9999 = getWeatherInfo 0
   \<and> condition (getWeatherInfo 9999) = ''Klarer Himmel''
   \<and> image_name (getWeatherInfo 9999) = ''sunny.png''
   \<and> background (getWeatherInfo 9999) = ''sunny''"
proof -
  have h: "(9999::int) \<notin> fst ` set weatherCodeMap"
    by (simp add: weatherCodeMap_def)
  have eq0: "getWeatherInfo 9999 = getWeatherInfo 0"
    and val: "getWeatherInfo 9999 =
      \<lparr>condition = ''Klarer Himmel'', image_name = ''sunny.png'', background = ''sunny''\<rparr>"
    using getWeatherInfo_unknown_code [OF h] by blast+
  have fields: "condition (getWeatherInfo 9999) = ''Klarer Himmel''"
    "image_name (getWeatherInfo 9999) = ''sunny.png''"
    "background (getWeatherInfo 9999) = ''sunny''"
    by (simp_all add: val)
  show ?thesis
    using h eq0 fields by blast
qed


subsection \<open>The last-city cache\<close>

lemma stored_record_console_log: "stored_record (console_log l m w) = stored_record w"
  by (simp add: stored_record_def console_log_def)

lemma localStorage_console_log: "localStorage (console_log l m w) = localStorage w"
  by (simp add: console_log_def)

lemma now_console_log: "now (console_log l m w) = now w"
  by (simp add: console_log_def)

lemma getLastCity_absent:
  "accessible (localStorage w) \<Longrightarrow> stored_record w = None \<Longrightarrow> getLastCity H m w = (None, w)"
  by (simp add: getLastCity_def getLastCity_try_def getItem_def stored_record_def)

lemma clearLastCity_clears:
  "accessible (localStorage w) \<Longrightarrow>
     stored_record (clearLastCity w) = None \<and> accessible (localStorage (clearLastCity w))"
  by (simp add: clearLastCity_def removeItem_def stored_record_def localStorage_console_log)

lemma saveLastCity_stores:
  assumes "accessible (localStorage w)" "writable (localStorage w)"
  shows "stored_record (saveLastCity c t w) =
           Some (JSON_stringify \<lparr>lat = lat c, lon = lon c, name = name c,
              ccountry = ccountry c, cpostcodes = cpostcodes c,
              timestamp = now w, searchText = t\<rparr>)"
    and "accessible (localStorage (saveLastCity c t w))"
  using assms
  by (simp_all add: saveLastCity_def setItem_def stored_record_def localStorage_console_log Let_def)

lemma stringify_fields:
  "JSON_stringify c = Json cityData \<Longrightarrow>
     get_field ''lat'' cityData = Inr (JNum (lat c))
   \<and> get_field ''lon'' cityData = Inr (JNum (lon c))
   \<and> get_field ''name'' cityData = Inr (JStr (name c))
   \<and> get_field ''timestamp'' cityData = Inr (JNum (of_int (timestamp c)))"
  by (auto simp: JSON_stringify_def split: option.splits)

text \<open>A record with a falsy required field is dropped and cleared, whichever test rejects it.\<close>

lemma getLastCity_falsy_field:
  assumes acc: "accessible (localStorage w)"
    and st: "stored_record w = Some (Json cityData)"
    and la: "get_field ''lat'' cityData = Inr x"
    and lo: "get_field ''lon'' cityData = Inr y"
    and na: "get_field ''name'' cityData = Inr z"
    and ts: "get_field ''timestamp'' cityData = Inr u"
    and falsy: "\<not> truthy x \<or> \<not> truthy y \<or> \<not> truthy z"
  shows "fst (getLastCity H m w) = None \<and> stored_record (snd (getLastCity H m w)) = None"
proof -
  have cleared: "stored_record (clearLastCity (console_log l msg w)) = None" for l msg
    using clearLastCity_clears [of "console_log l msg w"] acc
    by (simp add: localStorage_console_log)
  show ?thesis
  proof (cases "ageInHours H w u")
    case (Inl e)
    then have "getLastCity H m w =
        (None, clearLastCity (console_log Warn ''Failed to retrieve city from localStorage:'' w))"
      using acc st ts by (simp add: getLastCity_def getLastCity_try_def getItem_def stored_record_def)
    then show ?thesis by (simp add: cleared)
  next
    case (Inr age)
    show ?thesis
    proof (cases "expired age m")
      case True
      then have "getLastCity H m w =
          (None, clearLastCity (console_log Log ''Stored city data expired, removing...'' w))"
        using acc st ts Inr
        by (simp add: getLastCity_def getLastCity_try_def getItem_def stored_record_def)
      then show ?thesis by (simp add: cleared)
    next
      case False
      then have "getLastCity H m w =
          (None, clearLastCity (console_log Warn ''Invalid stored city data, removing...'' w))"
        using acc st ts la lo na falsy Inr
        by (simp add: getLastCity_def getLastCity_try_def getItem_def stored_record_def)
      then show ?thesis by (simp add: cleared)
    qed
  qed
qed

lemma example_cached_simps:
  "accessible (localStorage (example_cached v))"
  "stored_record (example_cached v) = Some (Json v)"
  "now (example_cached v) = 1700000000000"
  by (simp_all add: example_cached_def example_world_def stored_record_def)


text \<open>
  C3. A stored record whose saved timestamp is older than \<open>maxAgeHours\<close> is never
  returned by \<open>getLastCity\<close>; the call removes it from the storage, so a later call,
  at any later time and with any maximal age, returns nothing again and finds nothing
  stored.
\<close>

theorem expired_record_not_returned:
  assumes acc: "accessible (localStorage w)"
    and st: "stored_record w = Some (Json cityData)"
    and ts: "get_field ''timestamp'' cityData = Inr (JNum t)"
    and old: "(of_int (now w) - t) / (1000 * 60 * 60) > maxAgeHours"
  shows "fst (getLastCity H maxAgeHours w) = None
       \<and> stored_record (snd (getLastCity H maxAgeHours w)) = None
       \<and> fst (getLastCity H' maxAgeHours' ((snd (getLastCity H maxAgeHours w))\<lparr>now := later\<rparr>)) = None
       \<and> stored_record (snd (getLastCity H' maxAgeHours' ((snd (getLastCity H maxAgeHours w))\<lparr>now := later\<rparr>))) = None"
proof -
  let ?w1 = "clearLastCity (console_log Log ''Stored city data expired, removing...'' w)"
  have age: "ageInHours H w (JNum t) = Inr (Some ((of_int (now w) - t) / (1000 * 60 * 60)))"
    by (simp add: ageInHours_def)
  have ex: "expired (Some ((of_int (now w) - t) / (1000 * 60 * 60))) maxAgeHours"
    using old by (simp add: expired_def)
  have first: "getLastCity H maxAgeHours w = (None, ?w1)"
    using acc st ts ex
    by (simp add: getLastCity_def getLastCity_try_def getItem_def stored_record_def age)
  have c1: "stored_record ?w1 = None" and a1: "accessible (localStorage ?w1)"
    using clearLastCity_clears [of "console_log Log ''Stored city data expired, removing...'' w"] acc
    by (simp_all add: localStorage_console_log)
  have "accessible (localStorage (?w1\<lparr>now := later\<rparr>))" "stored_record (?w1\<lparr>now := later\<rparr>) = None"
    using c1 a1 by (simp_all add: stored_record_def)
  then have second: "getLastCity H' maxAgeHours' (?w1\<lparr>now := later\<rparr>) = (None, ?w1\<lparr>now := later\<rparr>)"
    by (rule getLastCity_absent)
  show ?thesis
    using c1 by (simp add: first second stored_record_def)
qed


theorem expired_record_not_returned_witness:
  "accessible (localStorage (example_cached (berlin_json (JNum 1699910000000))))
   \<and> stored_record (example_cached (berlin_json (JNum 1699910000000)))
       = Some (Json (berlin_json (JNum 1699910000000)))
   \<and> get_field ''timestamp'' (berlin_json (JNum 1699910000000)) = Inr (JNum 1699910000000)
   \<and> (of_int (now (example_cached (berlin_json (JNum 1699910000000)))) - 1699910000000) / (1000 * 60 * 60) > (24 :: rat)
   \<and> fst (getLastCity example_host 24 (example_cached (berlin_json (JNum 1699910000000)))) = None
   \<and> stored_record (snd (getLastCity example_host 24 (example_cached (berlin_json (JNum 1699910000000))))) = None
   \<and> fst (getLastCity example_host 24
        ((snd (getLastCity example_host 24 (example_cached (berlin_json (JNum 1699910000000)))))
           \<lparr>now := 1700000000000\<rparr>)) = None"
proof -
  let ?v = "berlin_json (JNum 1699910000000)"
  have h1: "accessible (localStorage (example_cached ?v))"
    and h2: "stored_record (example_cached ?v) = Some (Json ?v)"
    by (simp_all add: example_cached_simps)
  have h3: "get_field ''timestamp'' ?v = Inr (JNum 1699910000000)"
    by (simp add: berlin_json_def)
  have h4: "(of_int (now (example_cached ?v)) - 1699910000000) / (1000 * 60 * 60) > (24 :: rat)"
    by (simp add: example_cached_simps)
  from h1 h2 h3 h4 expired_record_not_returned [OF h1 h2 h3 h4, where H = example_host and H' = example_host
      and maxAgeHours' = 24 and later = 1700000000000]
  show ?thesis by simp
qed


text \<open>
  C4 (the code at the failing input). A city on the equator is a well-formed
  \<open>Coordinates\<close> value, yet saving it to a working storage and loading it at once gives
  nothing: the test \<open>!cityData.lat\<close> takes latitude 0 for a missing field.
\<close>

theorem save_load_equator_lost:
  "fst (getLastCity example_host 24
          (saveLastCity \<lparr>lat = 0, lon = 9 / 2, name = ''Equator'', ccountry = None, cpostcodes = None\<rparr>
             ''Equator'' example_world)) = None"
  by (simp add: getLastCity_def getLastCity_try_def getItem_def saveLastCity_def setItem_def
      example_world_def JSON_stringify_def console_log_def STORAGE_KEY_def expired_def
      ageInHours_def clearLastCity_def removeItem_def)


text \<open>
  Away from that slip the round trip holds: with non-zero coordinates and a non-empty name,
  a load within \<open>maxAgeHours\<close> of the save returns the saved fields, the text and the
  time of the write.
\<close>

lemma save_load_roundtrip:
  assumes acc: "accessible (localStorage w)" and wr: "writable (localStorage w)"
    and valid: "lat c \<noteq> 0" "lon c \<noteq> 0" "name c \<noteq> []"
    and soon: "now w \<le> later" "(of_int (later - now w) :: rat) / (1000 * 60 * 60) \<le> maxAgeHours"
  shows "\<exists>cityData. fst (getLastCity H maxAgeHours ((saveLastCity c t w)\<lparr>now := later\<rparr>)) = Some cityData
       \<and> JSON_stringify \<lparr>lat = lat c, lon = lon c, name = name c,
              ccountry = ccountry c, cpostcodes = cpostcodes c,
              timestamp = now w, searchText = t\<rparr> = Json cityData"
proof -
  let ?c = "\<lparr>lat = lat c, lon = lon c, name = name c,
              ccountry = ccountry c, cpostcodes = cpostcodes c,
              timestamp = now w, searchText = t\<rparr>"
  let ?w = "(saveLastCity c t w)\<lparr>now := later\<rparr>"
  obtain cityData where cd: "JSON_stringify ?c = Json cityData"
    by (simp add: JSON_stringify_def)
  have acc': "accessible (localStorage ?w)"
    using saveLastCity_stores(2) [OF acc wr] by simp
  have st: "stored_record ?w = Some (Json cityData)"
    using saveLastCity_stores(1) [OF acc wr, of c t] cd by (simp add: stored_record_def)
  have f: "get_field ''lat'' cityData = Inr (JNum (lat c))"
    "get_field ''lon'' cityData = Inr (JNum (lon c))"
    "get_field ''name'' cityData = Inr (JStr (name c))"
    "get_field ''timestamp'' cityData = Inr (JNum (of_int (now w)))"
    using stringify_fields [OF cd] by simp_all
  have fresh: "ageInHours H ?w (JNum (of_int (now w)))
        = Inr (Some ((of_int later - of_int (now w)) / (1000 * 60 * 60)))"
    "\<not> expired (Some ((of_int later - of_int (now w)) / (1000 * 60 * 60))) maxAgeHours"
    using soon by (simp_all add: expired_def ageInHours_def)
  have "fst (getLastCity H maxAgeHours ?w) = Some cityData"
    using acc' st f fresh valid
    by (simp add: getLastCity_def getLastCity_try_def getItem_def stored_record_def)
  with cd show ?thesis by blast
qed


lemma save_load_roundtrip_berlin:
  "fst (getLastCity example_host 24
          ((saveLastCity getBerlinCoordinates ''Berlin, Deutschland (PLZ: 10115)'' example_world)
             \<lparr>now := 1700000001000\<rparr>))
   = Some (JObj [(''lat'', JNum (5252 / 100)), (''lon'', JNum (13405 / 1000)),
                 (''name'', JStr ''Berlin''), (''country'', JStr ''Deutschland''),
                 (''postcodes'', JArr [JStr ''10115'', JStr ''10117'', JStr ''10119'']),
                 (''timestamp'', JNum 1700000000000),
                 (''searchText'', JStr ''Berlin, Deutschland (PLZ: 10115)'')])"
proof -
  have h: "accessible (localStorage example_world)" "writable (localStorage example_world)"
    "lat getBerlinCoordinates \<noteq> 0" "lon getBerlinCoordinates \<noteq> 0"
    "name getBerlinCoordinates \<noteq> []" "now example_world \<le> 1700000001000"
    "(of_int (1700000001000 - now example_world) :: rat) / (1000 * 60 * 60) \<le> 24"
    by (simp_all add: example_world_def getBerlinCoordinates_def)
  from save_load_roundtrip [OF h, where H = example_host
      and t = "''Berlin, Deutschland (PLZ: 10115)''"]
  show ?thesis
    by (auto simp: JSON_stringify_def getBerlinCoordinates_def example_world_def)
qed

text \<open>
  C9. For every candidate whose latitude is 0 or whose longitude is 0, saving it to a
  working storage and then loading returns nothing and leaves nothing stored, at whatever
  time the load happens and whatever the maximal age.
\<close>

theorem zero_coordinate_not_reloaded:
  assumes acc: "accessible (localStorage w)" and wr: "writable (localStorage w)"
    and zero: "lat c = 0 \<or> lon c = 0"
  shows "fst (getLastCity H maxAgeHours ((saveLastCity c t w)\<lparr>now := later\<rparr>)) = None
       \<and> stored_record (snd (getLastCity H maxAgeHours ((saveLastCity c t w)\<lparr>now := later\<rparr>))) = None"
proof -
  let ?c = "\<lparr>lat = lat c, lon = lon c, name = name c,
              ccountry = ccountry c, cpostcodes = cpostcodes c,
              timestamp = now w, searchText = t\<rparr>"
  let ?w = "(saveLastCity c t w)\<lparr>now := later\<rparr>"
  obtain cityData where cd: "JSON_stringify ?c = Json cityData"
    by (simp add: JSON_stringify_def)
  have acc': "accessible (localStorage ?w)"
    using saveLastCity_stores(2) [OF acc wr] by simp
  have st: "stored_record ?w = Some (Json cityData)"
    using saveLastCity_stores(1) [OF acc wr, of c t] cd by (simp add: stored_record_def)
  have f: "get_field ''lat'' cityData = Inr (JNum (lat c))"
    "get_field ''lon'' cityData = Inr (JNum (lon c))"
    "get_field ''name'' cityData = Inr (JStr (name c))"
    "get_field ''timestamp'' cityData = Inr (JNum (of_int (now w)))"
    using stringify_fields [OF cd] by simp_all
  have "\<not> truthy (JNum (lat c)) \<or> \<not> truthy (JNum (lon c)) \<or> \<not> truthy (JStr (name c))"
    using zero by auto
  then show ?thesis
    by (rule getLastCity_falsy_field [OF acc' st f(1) f(2) f(3) f(4)])
qed

theorem zero_coordinate_not_reloaded_witness:
  "accessible (localStorage example_world) \<and> writable (localStorage example_world)
   \<and> (lat \<lparr>lat = 0, lon = 9 / 2, name = ''Equator'', ccountry = None, cpostcodes = None\<rparr> = 0
      \<or> lon \<lparr>lat = 0, lon = 9 / 2, name = ''Equator'', ccountry = None, cpostcodes = None\<rparr> = 0)
   \<and> fst (getLastCity example_host 24
        ((saveLastCity \<lparr>lat = 0, lon = 9 / 2, name = ''Equator'', ccountry = None, cpostcodes = None\<rparr>
            ''Equator'' example_world)\<lparr>now := 1700000000001\<rparr>)) = None
   \<and> stored_record (snd (getLastCity example_host 24
        ((saveLastCity \<lparr>lat = 0, lon = 9 / 2, name = ''Equator'', ccountry = None, cpostcodes = None\<rparr>
            ''Equator'' example_world)\<lparr>now := 1700000000001\<rparr>))) = None"
proof -
  let ?c = "\<lparr>lat = 0, lon = 9 / 2, name = ''Equator'', ccountry = None, cpostcodes = None\<rparr>"
  have h1: "accessible (localStorage example_world)" and h2: "writable (localStorage example_world)"
    by (simp_all add: example_world_def)
  have h3: "lat ?c = 0 \<or> lon ?c = 0" by simp
  from zero_coordinate_not_reloaded [OF h1 h2 h3, where H = example_host and maxAgeHours = 24
      and t = "''Equator''" and later = 1700000000001] h1 h2 h3
  show ?thesis by blast
qed


text \<open>
  C10 (as claimed, refuted). A timestamp that is not a number may still convert to one:
  \<open>null\<close> converts to 0, so a record whose timestamp is \<open>null\<close> and whose latitude,
  longitude and name are truthy is found expired and is not returned.
\<close>

theorem null_timestamp_expires:
  "get_field ''timestamp'' (berlin_json JNull) = Inr JNull
   \<and> get_field ''lat'' (berlin_json JNull) = Inr (JNum (5252 / 100))
   \<and> get_field ''lon'' (berlin_json JNull) = Inr (JNum (13405 / 1000))
   \<and> get_field ''name'' (berlin_json JNull) = Inr (JStr ''Berlin'')
   \<and> truthy (JNum (5252 / 100)) \<and> truthy (JNum (13405 / 1000)) \<and> truthy (JStr ''Berlin'')
   \<and> stored_record (example_cached (berlin_json JNull)) = Some (Json (berlin_json JNull))
   \<and> fst (getLastCity example_host 24 (example_cached (berlin_json JNull))) = None"
  by (simp add: getLastCity_def getLastCity_try_def getItem_def
      example_cached_def example_world_def berlin_json_def STORAGE_KEY_def expired_def
      ageInHours_def stored_record_def)


text \<open>
  C10 (amended). What decides is the numeric conversion of the timestamp field. A stored
  record whose timestamp is missing, or holds a value that converts to \<open>NaN\<close>, is never
  treated as expired: whenever its latitude, longitude and name are truthy,
  \<open>getLastCity\<close> returns it and leaves it stored, whatever \<open>maxAgeHours\<close> is. A
  timestamp that is not a number but converts to one (\<open>null\<close> to 0, \<open>true\<close> to 1) is
  compared as that number, so the record is returned exactly when that age is within
  \<open>maxAgeHours\<close>. A timestamp whose conversion throws (an object with an own
  \<open>toString\<close> property) makes \<open>getLastCity\<close> clear the record and return nothing.
\<close>

theorem timestamp_conversion_decides_expiry:
  assumes acc: "accessible (localStorage w)"
    and st: "stored_record w = Some (Json cityData)"
    and ts: "get_field ''timestamp'' cityData = Inr ts"
    and la: "get_field ''lat'' cityData = Inr x" "truthy x"
    and lo: "get_field ''lon'' cityData = Inr y" "truthy y"
    and na: "get_field ''name'' cityData = Inr z" "truthy z"
  shows "(ToNumber H ts = Inr None \<longrightarrow>
            fst (getLastCity H maxAgeHours w) = Some cityData
          \<and> stored_record (snd (getLastCity H maxAgeHours w)) = Some (Json cityData))
       \<and> (\<forall>t. ToNumber H ts = Inr (Some t) \<longrightarrow>
            (if (of_int (now w) - t) / (1000 * 60 * 60) \<le> maxAgeHours
             then fst (getLastCity H maxAgeHours w) = Some cityData
                \<and> stored_record (snd (getLastCity H maxAgeHours w)) = Some (Json cityData)
             else fst (getLastCity H maxAgeHours w) = None
                \<and> stored_record (snd (getLastCity H maxAgeHours w)) = None))
       \<and> (\<forall>e. ToNumber H ts = Inl e \<longrightarrow>
            fst (getLastCity H maxAgeHours w) = None
          \<and> stored_record (snd (getLastCity H maxAgeHours w)) = None)
       \<and> ToNumber H JUndefined = Inr None
       \<and> ToNumber H JNull = Inr (Some 0)
       \<and> ToNumber H (JBool True) = Inr (Some 1)
       \<and> ToNumber H (JObj [(''toString'', JNum 1)]) = Inl TypeError"
proof -
  have nan: "fst (getLastCity H maxAgeHours w) = Some cityData
      \<and> stored_record (snd (getLastCity H maxAgeHours w)) = Some (Json cityData)"
    if "ToNumber H ts = Inr None"
    using that assms
    by (simp add: getLastCity_def getLastCity_try_def getItem_def stored_record_def expired_def
        ageInHours_def localStorage_console_log)
  have cleared: "stored_record (clearLastCity (console_log l msg w)) = None" for l msg
    using clearLastCity_clears [of "console_log l msg w"] acc
    by (simp add: localStorage_console_log)
  have num: "if (of_int (now w) - t) / (1000 * 60 * 60) \<le> maxAgeHours
      then fst (getLastCity H maxAgeHours w) = Some cityData
         \<and> stored_record (snd (getLastCity H maxAgeHours w)) = Some (Json cityData)
      else fst (getLastCity H maxAgeHours w) = None
         \<and> stored_record (snd (getLastCity H maxAgeHours w)) = None"
    if "ToNumber H ts = Inr (Some t)" for t
    using that assms cleared
    by (simp add: getLastCity_def getLastCity_try_def getItem_def stored_record_def expired_def
        ageInHours_def not_less localStorage_console_log)
  have thrown: "fst (getLastCity H maxAgeHours w) = None
      \<and> stored_record (snd (getLastCity H maxAgeHours w)) = None"
    if "ToNumber H ts = Inl e" for e
  proof -
    have "getLastCity H maxAgeHours w =
        (None, clearLastCity (console_log Warn ''Failed to retrieve city from localStorage:'' w))"
      using that acc st ts
      by (simp add: getLastCity_def getLastCity_try_def getItem_def stored_record_def
          ageInHours_def)
    then show ?thesis
      by (simp add: cleared)
  qed
  show ?thesis
    using nan num thrown by simp
qed

theorem timestamp_conversion_decides_expiry_witness:
  "accessible (localStorage (example_cached undated_json))
   \<and> stored_record (example_cached undated_json) = Some (Json undated_json)
   \<and> get_field ''timestamp'' undated_json = Inr JUndefined
   \<and> ToNumber example_host JUndefined = Inr None
   \<and> get_field ''lat'' undated_json = Inr (JNum (5252 / 100)) \<and> truthy (JNum (5252 / 100))
   \<and> get_field ''lon'' undated_json = Inr (JNum (13405 / 1000)) \<and> truthy (JNum (13405 / 1000))
   \<and> get_field ''name'' undated_json = Inr (JStr ''Berlin'') \<and> truthy (JStr ''Berlin'')
   \<and> fst (getLastCity example_host 0 (example_cached undated_json)) = Some undated_json
   \<and> stored_record (snd (getLastCity example_host 0 (example_cached undated_json)))
       = Some (Json undated_json)
   \<and> get_field ''timestamp'' (berlin_json (JObj [(''toString'', JNum 1)]))
       = Inr (JObj [(''toString'', JNum 1)])
   \<and> ToNumber example_host (JObj [(''toString'', JNum 1)]) = Inl TypeError
   \<and> fst (getLastCity example_host 24
        (example_cached (berlin_json (JObj [(''toString'', JNum 1)])))) = None
   \<and> stored_record (snd (getLastCity example_host 24
        (example_cached (berlin_json (JObj [(''toString'', JNum 1)]))))) = None
   \<and> get_field ''timestamp'' (berlin_json (JBool True)) = Inr (JBool True)
   \<and> ToNumber example_host (JBool True) = Inr (Some 1)
   \<and> fst (getLastCity example_host 24 (example_cached (berlin_json (JBool True)))) = None"
proof -
  let ?o = "JObj [(''toString'', JNum 1)]"
  have h1: "accessible (localStorage (example_cached v))" for v
    by (simp add: example_cached_simps)
  have h2: "stored_record (example_cached v) = Some (Json v)" for v
    by (simp add: example_cached_simps)
  have u: "get_field ''timestamp'' undated_json = Inr JUndefined"
    "get_field ''lat'' undated_json = Inr (JNum (5252 / 100))"
    "get_field ''lon'' undated_json = Inr (JNum (13405 / 1000))"
    "get_field ''name'' undated_json = Inr (JStr ''Berlin'')"
    by (simp_all add: undated_json_def)
  have b: "get_field ''timestamp'' (berlin_json v) = Inr v"
    "get_field ''lat'' (berlin_json v) = Inr (JNum (5252 / 100))"
    "get_field ''lon'' (berlin_json v) = Inr (JNum (13405 / 1000))"
    "get_field ''name'' (berlin_json v) = Inr (JStr ''Berlin'')" for v
    by (simp_all add: berlin_json_def)
  have t: "truthy (JNum (5252 / 100))" "truthy (JNum (13405 / 1000))" "truthy (JStr ''Berlin'')"
    by simp_all
  have n: "ToNumber example_host JUndefined = Inr None"
    "ToNumber example_host ?o = Inl TypeError"
    "ToNumber example_host (JBool True) = Inr (Some 1)"
    by simp_all
  have old: "\<not> (of_int (now (example_cached (berlin_json (JBool True)))) - 1) / (1000 * 60 * 60)
      \<le> (24 :: rat)"
    by (simp add: example_cached_simps)
  note missing = timestamp_conversion_decides_expiry
    [OF h1 h2 u(1) u(2) t(1) u(3) t(2) u(4) t(3), where H = example_host and maxAgeHours = 0]
  note throwing = timestamp_conversion_decides_expiry
    [OF h1 h2 b(1) [of ?o] b(2) t(1) b(3) t(2) b(4) t(3),
      where H = example_host and maxAgeHours = 24]
  note numeric = timestamp_conversion_decides_expiry
    [OF h1 h2 b(1) [of "JBool True"] b(2) t(1) b(3) t(2) b(4) t(3),
      where H = example_host and maxAgeHours = 24]
  have r1: "fst (getLastCity example_host 0 (example_cached undated_json)) = Some undated_json"
    "stored_record (snd (getLastCity example_host 0 (example_cached undated_json)))
       = Some (Json undated_json)"
    using missing n(1) by blast+
  have r2: "fst (getLastCity example_host 24 (example_cached (berlin_json ?o))) = None"
    "stored_record (snd (getLastCity example_host 24 (example_cached (berlin_json ?o)))) = None"
    using throwing n(2) by blast+
  have r3: "fst (getLastCity example_host 24 (example_cached (berlin_json (JBool True)))) = None"
    using numeric n(3) old by auto
  show ?thesis
    using h1 h2 u b t n r1 r2 r3 by simp
qed

subsection \<open>The geocoding client\<close>

text \<open>\<open>searchCities\<close> returns a list whatever the query and whatever the network answers.\<close>

lemma searchCities_never_throws: "\<exists>cities. fst (searchCities query w) = Inr cities"
  by (simp add: searchCities_def split: prod.splits sum.splits)

text \<open>
  C7. When the geocoding request is rejected, answered with a bad status, or its body
  cannot be decoded (it is not JSON, or it is \<open>null\<close>), \<open>searchCities\<close> logs the
  error and returns the empty list; it does not throw.
\<close>

theorem searchCities_failure_is_empty:
  assumes "trim query \<noteq> []"
    and "fst (fetch (GeoRequest (trim query)) w) = r"
    and "r = Rejected
         \<or> (\<exists>status data. r = Response status data
               \<and> (\<not> ok status \<or> data = Unparseable \<or> data = JsonNull))"
  shows "fst (searchCities query w) = Inr []
       \<and> console (snd (searchCities query w)) = console w @ [(Err, ''Error searching cities:'')]"
  using assms
  by (auto simp: searchCities_def searchCities_try_def fetch_def console_log_def
      split: prod.splits sum.splits list.splits reply.splits json_body.splits)

theorem searchCities_failure_is_empty_witness:
  "trim ''Paris'' \<noteq> []
   \<and> fst (fetch (GeoRequest (trim ''Paris'')) (example_world\<lparr>network := [Response 503 Unparseable]\<rparr>))
       = Response 503 Unparseable
   \<and> \<not> ok 503
   \<and> fst (searchCities ''Paris'' (example_world\<lparr>network := [Response 503 Unparseable]\<rparr>)) = Inr []
   \<and> console (snd (searchCities ''Paris'' (example_world\<lparr>network := [Response 503 Unparseable]\<rparr>)))
       = [(Err, ''Error searching cities:'')]"
proof -
  let ?w = "example_world\<lparr>network := [Response 503 Unparseable]\<rparr>"
  have h1: "trim ''Paris'' \<noteq> []" by (simp add: trim_def is_space_def)
  have h2: "fst (fetch (GeoRequest (trim ''Paris'')) ?w) = Response 503 Unparseable"
    by (simp add: fetch_def)
  have h3: "\<not> ok 503" by (simp add: ok_def)
  then have h3': "Response 503 Unparseable = Rejected
     \<or> (\<exists>status data. Response 503 Unparseable = Response status data
           \<and> (\<not> ok status \<or> data = Unparseable \<or> data = JsonNull))"
    by simp
  have c: "console ?w = []" by (simp add: example_world_def)
  from searchCities_failure_is_empty [OF h1 h2 h3'] h1 h2 h3 c
  show ?thesis by simp
qed

subsection \<open>Keyboard navigation\<close>

lemma map_of_setAttribute_other:
  "k' \<noteq> k \<Longrightarrow> map_of (setAttribute k v ps) k' = map_of ps k'"
  by (induction ps) auto

lemma is_option_aria_selected:
  "is_option (l\<lparr>li_attrs := setAttribute ''aria-selected'' v (li_attrs l)\<rparr>) = is_option l"
  by (simp add: is_option_def map_of_setAttribute_other)

lemma updateSelection_loop_count:
  "length (filter is_option (fst (updateSelection_loop sel i ls))) = length (filter is_option ls)"
  by (induction ls arbitrary: i) (simp_all add: is_option_aria_selected case_prod_beta)

lemma updateSelection_count:
  "length (querySelectorAll_options (updateSelection sel s)) = length (querySelectorAll_options s)"
  using updateSelection_loop_count [of sel 0 "children s"]
  by (simp add: updateSelection_def querySelectorAll_options_def case_prod_beta)

lemma updateSelection_selectedIndex:
  "selectedIndex (updateSelection sel s) = selectedIndex s"
  by (simp add: updateSelection_def case_prod_beta)

lemma options_selectedIndex_update:
  "querySelectorAll_options (s\<lparr>selectedIndex := i\<rparr>) = querySelectorAll_options s"
  by (simp add: querySelectorAll_options_def)

lemma keydown_ArrowDown:
  "keydown ArrowDown s =
     updateSelection (min (selectedIndex s + 1) (int (length (querySelectorAll_options s)) - 1))
       (s\<lparr>selectedIndex := min (selectedIndex s + 1) (int (length (querySelectorAll_options s)) - 1)\<rparr>)"
  by (simp add: keydown_def Let_def)

lemma keydown_ArrowUp:
  "keydown ArrowUp s =
     updateSelection (max (selectedIndex s - 1) (- 1))
       (s\<lparr>selectedIndex := max (selectedIndex s - 1) (- 1)\<rparr>)"
  by (simp add: keydown_def Let_def)

lemma keydown_arrow_count:
  "e = ArrowDown \<or> e = ArrowUp \<Longrightarrow>
     length (querySelectorAll_options (keydown e s)) = length (querySelectorAll_options s)"
  by (auto simp: keydown_ArrowDown keydown_ArrowUp updateSelection_count
      options_selectedIndex_update)

lemma keydown_arrow_bounds:
  assumes "e = ArrowDown \<or> e = ArrowUp"
    and "- 1 \<le> selectedIndex s" "selectedIndex s \<le> int (length (querySelectorAll_options s)) - 1"
  shows "- 1 \<le> selectedIndex (keydown e s)
       \<and> selectedIndex (keydown e s) \<le> int (length (querySelectorAll_options s)) - 1"
  using assms
  by (auto simp: keydown_ArrowDown keydown_ArrowUp updateSelection_selectedIndex)

text \<open>
  In terms of the list items: from an index within the list, the arrow keys keep it between
  -1 and the number of option items minus one, and they change neither that number, nor
  the results, nor the events dispatched.
\<close>

lemma arrows_keep_index_in_list:
  assumes "set es \<subseteq> {ArrowDown, ArrowUp}"
    and "- 1 \<le> selectedIndex s" "selectedIndex s \<le> int (length (querySelectorAll_options s)) - 1"
  shows "- 1 \<le> selectedIndex (fold keydown es s)
       \<and> selectedIndex (fold keydown es s) \<le> int (length (querySelectorAll_options s)) - 1
       \<and> length (querySelectorAll_options (fold keydown es s)) = length (querySelectorAll_options s)"
  using assms
proof (induction es arbitrary: s)
  case Nil
  then show ?case by simp
next
  case (Cons e es)
  have a: "e = ArrowDown \<or> e = ArrowUp" using Cons.prems(1) by auto
  have b: "- 1 \<le> selectedIndex (keydown e s)"
    "selectedIndex (keydown e s) \<le> int (length (querySelectorAll_options (keydown e s))) - 1"
    using keydown_arrow_bounds [OF a Cons.prems(2,3)] keydown_arrow_count [OF a, of s] by simp_all
  have "set es \<subseteq> {ArrowDown, ArrowUp}" using Cons.prems(1) by simp
  from Cons.IH [OF this b] show ?case
    by (simp add: keydown_arrow_count [OF a])
qed

lemma updateSelection_currentResults:
  "currentResults (updateSelection sel s) = currentResults s"
  by (simp add: updateSelection_def case_prod_beta)

lemma arrows_keep_currentResults:
  "set es \<subseteq> {ArrowDown, ArrowUp} \<Longrightarrow> currentResults (fold keydown es s) = currentResults s"
proof (induction es arbitrary: s)
  case Nil
  then show ?case by simp
next
  case (Cons e es)
  then have "e = ArrowDown \<or> e = ArrowUp" by auto
  then have "currentResults (keydown e s) = currentResults s"
    by (auto simp: keydown_ArrowDown keydown_ArrowUp updateSelection_currentResults)
  with Cons show ?case by simp
qed

text \<open>What \<open>showResults\<close> puts in the list: one option per match, or the one placeholder.\<close>

lemma is_option_make_li: "is_option (make_li city index)"
  by (simp add: is_option_def make_li_def)

lemma options_showResults:
  "length (querySelectorAll_options (showResults matches s)) =
     (if matches = [] then 1 else length matches)"
proof (cases "matches = []")
  case True
  then show ?thesis
    by (simp add: showResults_def querySelectorAll_options_def is_option_def)
next
  case False
  have "filter is_option (map (\<lambda>(city, index). make_li city index) ps) =
        map (\<lambda>(city, index). make_li city index) ps" for ps
    by (induction ps) (auto simp: is_option_make_li)
  with False show ?thesis
    by (simp add: showResults_def querySelectorAll_options_def)
qed

lemma currentResults_showResults: "currentResults (showResults matches s) = matches"
  by (simp add: showResults_def)




text \<open>
  With no match the placeholder is the one item of the list: the arrow keys keep the index
  between -1 and 0, and Enter, which also requires an index below the number of results,
  commits nothing.
\<close>

lemma placeholder_is_the_only_item:
  assumes "set es \<subseteq> {ArrowDown, ArrowUp}"
  shows "selectedIndex (fold keydown es ((showResults [] s)\<lparr>selectedIndex := - 1\<rparr>)) \<le> 0
       \<and> keydown Enter (fold keydown es ((showResults [] s)\<lparr>selectedIndex := - 1\<rparr>))
           = fold keydown es ((showResults [] s)\<lparr>selectedIndex := - 1\<rparr>)"
proof -
  let ?s = "(showResults [] s)\<lparr>selectedIndex := - 1\<rparr>"
  have n: "length (querySelectorAll_options ?s) = 1"
    by (simp add: options_selectedIndex_update options_showResults)
  have start: "- 1 \<le> selectedIndex ?s" "selectedIndex ?s \<le> int (length (querySelectorAll_options ?s)) - 1"
    by (simp_all add: n)
  have b: "selectedIndex (fold keydown es ?s) \<le> 0"
    using arrows_keep_index_in_list [OF assms start] by (simp add: n)
  have c: "currentResults (fold keydown es ?s) = []"
    using arrows_keep_currentResults [OF assms, of ?s] by (simp add: currentResults_showResults)
  have "keydown Enter (fold keydown es ?s) = fold keydown es ?s"
    using c by (auto simp: keydown_def Let_def)
  with b show ?thesis by simp
qed

subsection \<open>The postal-code line\<close>

lemma postalText_three: "postalText [''10115'', ''10117'', ''10119''] = ''PLZ: 10115, 10117, 10119''"
  by (simp add: postalText_def slice_def)

text \<open>
  C2 (as claimed, refuted). For the reading of Berlin, whose postal codes are 10115, 10117
  and 10119, the postal-code line is \<open>PLZ: 10115, 10117, 10119\<close>: it does not contain
  \<open>+2 more\<close>.
\<close>

theorem three_postcodes_no_more_suffix:
  "postcodes berlin_weather = Some [''10115'', ''10117'', ''10119'']
   \<and> map_option textContent
        (postalCodesDisplay (document (updateWeatherDisplay example_host berlin_weather example_world)))
       = Some ''PLZ: 10115, 10117, 10119''
   \<and> \<not> sublist ''+2 more'' ''PLZ: 10115, 10117, 10119''"
proof -
  have "\<not> sublist ''+2 more'' ''PLZ: 10115, 10117, 10119''" by code_simp
  then show ?thesis
    by (simp add: berlin_weather_def updateWeatherDisplay_def Let_def showWeatherData_def
        example_world_def example_page_def postalText_three)
qed

lemma postalCodesDisplay_showWeatherData:
  "postalCodesDisplay (document (showWeatherData w)) = postalCodesDisplay (document w)"
  by (simp add: showWeatherData_def)

lemma postalCodesDisplay_updateWeatherDisplay:
  "postalCodesDisplay (document (updateWeatherDisplay H wd w)) =
     map_option
       (\<lambda>e. case postcodes wd of
               None \<Rightarrow> e\<lparr>display := ''none''\<rparr>
             | Some ps \<Rightarrow>
                 if length ps > 0
                 then e\<lparr>textContent := postalText ps, display := ''block''\<rparr>
                 else e\<lparr>display := ''none''\<rparr>)
       (postalCodesDisplay (document w))"
  by (simp add: updateWeatherDisplay_def Let_def postalCodesDisplay_showWeatherData)

text \<open>
  C2 (amended). For a reading whose postal codes are 10115, 10117 and 10119 the postal-code
  line is \<open>PLZ: 10115, 10117, 10119\<close> and is shown: it contains 10115 and no
  \<open>more\<close> suffix. For an empty list the element is hidden (\<open>display: none\<close>). It is
  the entry of the suggestion list, for a city with these codes, that ends with
  \<open>(PLZ: 10115, +2 more)\<close>.
\<close>

theorem postal_codes_rendering:
  assumes "postalCodesDisplay (document w) = Some e"
  shows "postalCodesDisplay (document (updateWeatherDisplay H
             (wd\<lparr>postcodes := Some [''10115'', ''10117'', ''10119'']\<rparr>) w))
           = Some (e\<lparr>textContent := ''PLZ: 10115, 10117, 10119'', display := ''block''\<rparr>)
       \<and> sublist ''10115'' ''PLZ: 10115, 10117, 10119''
       \<and> \<not> sublist ''more'' ''PLZ: 10115, 10117, 10119''
       \<and> postalCodesDisplay (document (updateWeatherDisplay H (wd\<lparr>postcodes := Some []\<rparr>) w))
           = Some (e\<lparr>display := ''none''\<rparr>)
       \<and> cityText (c\<lparr>cpostcodes := Some [''10115'', ''10117'', ''10119'']\<rparr>)
           = cityText (c\<lparr>cpostcodes := None\<rparr>) @ '' (PLZ: 10115, +2 more)''"
proof -
  have a: "sublist ''10115'' ''PLZ: 10115, 10117, 10119''" by code_simp
  have b: "\<not> sublist ''more'' ''PLZ: 10115, 10117, 10119''" by code_simp
  have c: "show_nat (Suc (Suc 0)) = ''2''" by code_simp
  have d: "cityText (c\<lparr>cpostcodes := Some [''10115'', ''10117'', ''10119'']\<rparr>)
           = cityText (c\<lparr>cpostcodes := None\<rparr>) @ '' (PLZ: 10115, +2 more)''"
    by (simp add: cityText_def c)
  show ?thesis
    using assms a b d
    by (simp add: postalCodesDisplay_updateWeatherDisplay postalText_three)
qed

theorem postal_codes_rendering_witness:
  "postalCodesDisplay (document example_world) = Some blank
   \<and> postalCodesDisplay (document (updateWeatherDisplay example_host berlin_weather example_world))
       = Some (blank\<lparr>textContent := ''PLZ: 10115, 10117, 10119'', display := ''block''\<rparr>)
   \<and> postalCodesDisplay (document (updateWeatherDisplay example_host
         (berlin_weather\<lparr>postcodes := Some []\<rparr>) example_world))
       = Some (blank\<lparr>display := ''none''\<rparr>)
   \<and> cityText getBerlinCoordinates = ''Berlin, Deutschland (PLZ: 10115, +2 more)''"
proof -
  have h: "postalCodesDisplay (document example_world) = Some blank"
    by (simp add: example_world_def example_page_def)
  have e: "berlin_weather\<lparr>postcodes := Some [''10115'', ''10117'', ''10119'']\<rparr> = berlin_weather"
    by (simp add: berlin_weather_def)
  have g: "getBerlinCoordinates\<lparr>cpostcodes := Some [''10115'', ''10117'', ''10119'']\<rparr> = getBerlinCoordinates"
    "cityText (getBerlinCoordinates\<lparr>cpostcodes := None\<rparr>) = ''Berlin, Deutschland''"
    by (simp_all add: getBerlinCoordinates_def cityText_def or_else_def)
  from postal_codes_rendering [OF h, where H = example_host and wd = berlin_weather
      and c = getBerlinCoordinates] h
  show ?thesis by (simp add: e g)
qed

subsection \<open>A failed weather request\<close>

lemma fetch_document_update:
  "fetch rq (w\<lparr>document := d\<rparr>) = (fst (fetch rq w), (snd (fetch rq w))\<lparr>document := d\<rparr>)"
  by (simp add: fetch_def split: list.splits)

lemma fetch_frame:
  "document (snd (fetch rq w)) = document w" "localStorage (snd (fetch rq w)) = localStorage w"
  "requests (snd (fetch rq w)) = requests w @ [rq]"
  by (simp_all add: fetch_def split: list.splits)

lemma getCurrentWeather_try_document_update:
  "getCurrentWeather_try c (w\<lparr>document := d\<rparr>) =
     (fst (getCurrentWeather_try c w), (snd (getCurrentWeather_try c w))\<lparr>document := d\<rparr>)"
  by (simp add: getCurrentWeather_try_def fetch_document_update case_prod_beta Let_def
      split: reply.splits json_body.splits option.splits)

lemma getCurrentWeather_try_frame:
  "document (snd (getCurrentWeather_try c w)) = document w"
  "localStorage (snd (getCurrentWeather_try c w)) = localStorage w"
  "requests (snd (getCurrentWeather_try c w)) = requests w @ [ForecastRequest (lat c) (lon c)]"
  by (simp_all add: getCurrentWeather_try_def fetch_frame case_prod_beta Let_def
      split: reply.splits json_body.splits option.splits)

lemma getCurrentWeather_document_update:
  "getCurrentWeather c (w\<lparr>document := d\<rparr>) =
     (fst (getCurrentWeather c w), (snd (getCurrentWeather c w))\<lparr>document := d\<rparr>)"
  by (simp add: getCurrentWeather_def getCurrentWeather_try_document_update case_prod_beta console_log_def
      split: sum.splits)

lemma getCurrentWeather_frame:
  "document (snd (getCurrentWeather c w)) = document w"
  "localStorage (snd (getCurrentWeather c w)) = localStorage w"
  "requests (snd (getCurrentWeather c w)) = requests w @ [ForecastRequest (lat c) (lon c)]"
  by (simp_all add: getCurrentWeather_def getCurrentWeather_try_frame case_prod_beta console_log_def
      split: sum.splits)

lemma fetchWeatherData_begin_document:
  "fetchWeatherData_begin showLoading w = w\<lparr>document := document (fetchWeatherData_begin showLoading w)\<rparr>"
  by (simp add: fetchWeatherData_begin_def Let_def showLoadingState_def)

lemma fetchWeatherData_begin_frame:
  "temperatureDisplay (document (fetchWeatherData_begin showLoading w)) = temperatureDisplay (document w)"
  "feelsLikeDisplay (document (fetchWeatherData_begin showLoading w)) = feelsLikeDisplay (document w)"
  "weatherTypeDisplay (document (fetchWeatherData_begin showLoading w)) = weatherTypeDisplay (document w)"
  "cityDisplay (document (fetchWeatherData_begin showLoading w)) = cityDisplay (document w)"
  "weatherImage (document (fetchWeatherData_begin showLoading w)) = weatherImage (document w)"
  "postalCodesDisplay (document (fetchWeatherData_begin showLoading w)) = postalCodesDisplay (document w)"
  "humidityDisplay (document (fetchWeatherData_begin showLoading w)) = humidityDisplay (document w)"
  "windSpeedDisplay (document (fetchWeatherData_begin showLoading w)) = windSpeedDisplay (document w)"
  by (simp_all add: fetchWeatherData_begin_def Let_def showLoadingState_def)

lemma getCurrentWeather_begin:
  "getCurrentWeather c (fetchWeatherData_begin showLoading w) =
     (fst (getCurrentWeather c w),
      (snd (getCurrentWeather c w))\<lparr>document := document (fetchWeatherData_begin showLoading w)\<rparr>)"
  using getCurrentWeather_document_update [where c = c and w = w
      and d = "document (fetchWeatherData_begin showLoading w)"]
    fetchWeatherData_begin_document [of showLoading w]
  by simp

lemma fetchWeatherData_failure:
  assumes "fst (getCurrentWeather c w) = Inl err"
  shows "fetchWeatherData H c save showLoading w =
     (None, fetchWeatherData_finally (fetchWeatherData_catch
        ((snd (getCurrentWeather c w))\<lparr>document := document (fetchWeatherData_begin showLoading w)\<rparr>)))"
  using assms
  by (simp add: fetchWeatherData_def fetchWeatherData_try_def getCurrentWeather_begin)

text \<open>
  C8. When the weather request fails, \<open>fetchWeatherData\<close> does not reject; it writes the
  two fixed error texts into the city and the condition element, leaves the temperature,
  feels-like, humidity, wind, postal-code and image elements as they were, and leaves the
  storage untouched, whether or not saving and the spinner were asked for.
\<close>

theorem failed_request_frame:
  assumes fails: "fst (getCurrentWeather coordinates w) = Inl err"
  shows "fst (fetchWeatherData H coordinates saveToStorage showLoading w) = None
    \<and> cityDisplay (document (snd (fetchWeatherData H coordinates saveToStorage showLoading w)))
        = map_option (\<lambda>e. e\<lparr>textContent := ''Fehler beim Laden der Wetterdaten''\<rparr>) (cityDisplay (document w))
    \<and> weatherTypeDisplay (document (snd (fetchWeatherData H coordinates saveToStorage showLoading w)))
        = map_option (\<lambda>e. e\<lparr>textContent := ''Bitte versuchen Sie es erneut''\<rparr>) (weatherTypeDisplay (document w))
    \<and> temperatureDisplay (document (snd (fetchWeatherData H coordinates saveToStorage showLoading w)))
        = temperatureDisplay (document w)
    \<and> feelsLikeDisplay (document (snd (fetchWeatherData H coordinates saveToStorage showLoading w)))
        = feelsLikeDisplay (document w)
    \<and> humidityDisplay (document (snd (fetchWeatherData H coordinates saveToStorage showLoading w)))
        = humidityDisplay (document w)
    \<and> windSpeedDisplay (document (snd (fetchWeatherData H coordinates saveToStorage showLoading w)))
        = windSpeedDisplay (document w)
    \<and> postalCodesDisplay (document (snd (fetchWeatherData H coordinates saveToStorage showLoading w)))
        = postalCodesDisplay (document w)
    \<and> weatherImage (document (snd (fetchWeatherData H coordinates saveToStorage showLoading w)))
        = weatherImage (document w)
    \<and> localStorage (snd (fetchWeatherData H coordinates saveToStorage showLoading w)) = localStorage w"
proof -
  have r: "fetchWeatherData H coordinates saveToStorage showLoading w =
      (None, fetchWeatherData_finally (fetchWeatherData_catch
         ((snd (getCurrentWeather coordinates w))
            \<lparr>document := document (fetchWeatherData_begin showLoading w)\<rparr>)))"
    using fails by (rule fetchWeatherData_failure)
  show ?thesis
    by (simp add: r fetchWeatherData_begin_frame fetchWeatherData_finally_def
        fetchWeatherData_catch_def Let_def showWeatherData_def console_log_def
        getCurrentWeather_frame)
qed

theorem failed_request_frame_witness:
  "fst (getCurrentWeather getBerlinCoordinates (example_world\<lparr>network := [Rejected]\<rparr>))
     = Inl (Error ''Fehler beim Laden der Wetterdaten. Bitte versuchen Sie es erneut.'')
   \<and> fst (fetchWeatherData example_host getBerlinCoordinates True True (example_world\<lparr>network := [Rejected]\<rparr>)) = None
   \<and> cityDisplay (document (snd (fetchWeatherData example_host getBerlinCoordinates True True
          (example_world\<lparr>network := [Rejected]\<rparr>))))
       = Some (blank\<lparr>textContent := ''Fehler beim Laden der Wetterdaten''\<rparr>)
   \<and> weatherTypeDisplay (document (snd (fetchWeatherData example_host getBerlinCoordinates True True
          (example_world\<lparr>network := [Rejected]\<rparr>))))
       = Some (blank\<lparr>textContent := ''Bitte versuchen Sie es erneut''\<rparr>)
   \<and> temperatureDisplay (document (snd (fetchWeatherData example_host getBerlinCoordinates True True
          (example_world\<lparr>network := [Rejected]\<rparr>))))
       = Some blank
   \<and> localStorage (snd (fetchWeatherData example_host getBerlinCoordinates True True
          (example_world\<lparr>network := [Rejected]\<rparr>)))
       = localStorage example_world"
proof -
  let ?w = "example_world\<lparr>network := [Rejected]\<rparr>"
  have h: "fst (getCurrentWeather getBerlinCoordinates ?w)
     = Inl (Error ''Fehler beim Laden der Wetterdaten. Bitte versuchen Sie es erneut.'')"
    by (simp add: getCurrentWeather_def getCurrentWeather_try_def fetch_def)
  have d: "cityDisplay (document ?w) = Some blank" "weatherTypeDisplay (document ?w) = Some blank"
    "temperatureDisplay (document ?w) = Some blank" "localStorage ?w = localStorage example_world"
    by (simp_all add: example_world_def example_page_def)
  from failed_request_frame [OF h, where H = example_host and saveToStorage = True
      and showLoading = True] h d
  show ?thesis by simp
qed

subsection \<open>The bootstrap\<close>

lemma requests_console_log: "requests (console_log l m w) = requests w"
  by (simp add: console_log_def)

lemma requests_clearLastCity: "requests (clearLastCity w) = requests w"
  by (simp add: clearLastCity_def removeItem_def console_log_def split: sum.splits)

lemma requests_getLastCity: "requests (snd (getLastCity H m w)) = requests w"
  by (auto simp: getLastCity_def getLastCity_try_def requests_clearLastCity requests_console_log
      split: sum.splits option.splits if_splits)

lemma requests_saveLastCity: "requests (saveLastCity c t w) = requests w"
  by (simp add: saveLastCity_def setItem_def console_log_def Let_def split: sum.splits)

lemma requests_isStorageAvailable: "requests (snd (isStorageAvailable w)) = requests w"
  by (simp add: isStorageAvailable_def setItem_def removeItem_def split: sum.splits)

lemma requests_showWeatherData: "requests (showWeatherData w) = requests w"
  by (simp add: showWeatherData_def)

lemma requests_updateWeatherDisplay: "requests (updateWeatherDisplay H wd w) = requests w"
  by (simp add: updateWeatherDisplay_def Let_def requests_showWeatherData)

lemma requests_begin: "requests (fetchWeatherData_begin l w) = requests w"
  by (simp add: fetchWeatherData_begin_def Let_def showLoadingState_def)

lemma requests_try:
  "requests (snd (fetchWeatherData_try H c s l w)) = requests w @ [ForecastRequest (lat c) (lon c)]"
proof -
  have g: "requests (snd (getCurrentWeather c (fetchWeatherData_begin l w)))
      = requests w @ [ForecastRequest (lat c) (lon c)]"
    by (simp add: getCurrentWeather_frame requests_begin)
  show ?thesis
  proof (cases "getCurrentWeather c (fetchWeatherData_begin l w)")
    case (Pair r w3)
    with g have w3: "requests w3 = requests w @ [ForecastRequest (lat c) (lon c)]" by simp
    show ?thesis
    proof (cases r)
      case (Inl e)
      with Pair w3 show ?thesis by (simp add: fetchWeatherData_try_def)
    next
      case (Inr wd)
      have i: "requests (snd (isStorageAvailable (updateWeatherDisplay H wd w3))) = requests w3"
        by (simp add: requests_isStorageAvailable requests_updateWeatherDisplay)
      from Inr Pair w3 i show ?thesis
        by (cases "isStorageAvailable (updateWeatherDisplay H wd w3)")
           (simp add: fetchWeatherData_try_def Let_def announceWeatherUpdate_def
              requests_updateWeatherDisplay requests_saveLastCity split: bool.splits)
    qed
  qed
qed

lemma fetchWeatherData_one_request:
  "fst (fetchWeatherData H c s l w) = None
   \<and> requests (snd (fetchWeatherData H c s l w)) = requests w @ [ForecastRequest (lat c) (lon c)]"
  using requests_try [of H c s l w]
  by (cases "fetchWeatherData_try H c s l w")
     (simp add: fetchWeatherData_def fetchWeatherData_finally_def fetchWeatherData_catch_def
        Let_def showWeatherData_def console_log_def split: option.splits)

lemma loadBerlin_one_request:
  "fst (loadBerlin H w) = None
   \<and> requests (snd (loadBerlin H w)) =
       requests w @ [ForecastRequest (lat getBerlinCoordinates) (lon getBerlinCoordinates)]"
proof -
  let ?w1 = "w\<lparr>document := (document w)\<lparr>weatherLoadingSection :=
                  map_option (\<lambda>e. e\<lparr>hidden := True\<rparr>) (weatherLoadingSection (document w))\<rparr>\<rparr>"
  from fetchWeatherData_one_request [of H getBerlinCoordinates False False ?w1]
  show ?thesis
    by (cases "fetchWeatherData H getBerlinCoordinates False False ?w1")
       (simp add: loadBerlin_def Let_def)
qed

text \<open>
  How many requests the bootstrap makes does not depend on what the network answers. It
  makes one, for the cached city or for Berlin. Only when the cached \<open>searchText\<close>
  cannot be converted to a string does the template literal throw after that request, and
  then the \<open>catch\<close> block requests Berlin.
\<close>

lemma loadInitialWeather_one_request:
  assumes run: "loadInitialWeather H w = Some (r, w')"
    and conv: "\<And>v text. fst (getLastCity H 24 w) = Some v \<Longrightarrow>
                 get_field ''searchText'' v = Inr text \<Longrightarrow> \<exists>shown. ToString H text = Inr shown"
  shows "r = None \<and> (\<exists>rq. requests w' = requests w @ [rq])"
proof (cases "getLastCity H 24 w")
  case (Pair lastCity w1)
  then have w1: "requests w1 = requests w"
    using requests_getLastCity [of H 24 w] by simp
  show ?thesis
  proof (cases lastCity)
    case None
    let ?w2 = "console_log Log ''No saved city found, loading Berlin default immediately'' w1"
    have t: "loadInitialWeather_try H w = Some (loadBerlin H ?w2)"
      using Pair None by (simp add: loadInitialWeather_try_def)
    from loadBerlin_one_request [of H ?w2] run t w1 show ?thesis
      by (cases "loadBerlin H ?w2")
         (auto simp: loadInitialWeather_def loadInitialWeather_finally_def requests_console_log)
  next
    case (Some v)
    show ?thesis
    proof (cases "as_Coordinates v")
      case None
      with Pair Some run show ?thesis
        by (simp add: loadInitialWeather_def loadInitialWeather_try_def)
    next
      case (Some c)
      let ?w2 = "console_log Log ''Loading last saved city:'' w1"
      let ?w3 = "?w2\<lparr>document := (document ?w2)\<lparr>loadingIndicator :=
                   map_option (\<lambda>e. e\<lparr>hidden := False\<rparr>) (loadingIndicator (document ?w2))\<rparr>\<rparr>"
      obtain kvs where v: "v = JObj kvs"
        using Some by (cases v) (simp_all add: as_Coordinates_def)
      obtain text0 where g: "get_field ''searchText'' v = Inr text0"
        using v by simp
      obtain shown where sh: "ToString H text0 = Inr shown"
        using conv [of v text0] Pair \<open>lastCity = Some v\<close> g by auto
      obtain w4 where f: "fetchWeatherData H c False False ?w3 = (None, w4)"
        "requests w4 = requests w @ [ForecastRequest (lat c) (lon c)]"
        using fetchWeatherData_one_request [of H c False False ?w3] w1
        by (cases "fetchWeatherData H c False False ?w3") (simp add: requests_console_log)
      have "loadInitialWeather_try H w =
          Some (None, w4\<lparr>document := (document w4)\<lparr>search := map_option
                   (\<lambda>e. e\<lparr>placeholder := ''Aktuell: '' @ shown, val := []\<rparr>)
                   (search (document w4))\<rparr>,
                 currentCoordinates := Some c\<rparr>)"
        using Pair \<open>lastCity = Some v\<close> Some f(1) g sh
        by (simp add: loadInitialWeather_try_def Let_def)
      with run f(2) show ?thesis
        by (auto simp: loadInitialWeather_def loadInitialWeather_finally_def)
    qed
  qed
qed

lemma loadInitialWeather_fallback_request:
  assumes run: "loadInitialWeather H w = Some (r, w')"
    and cached: "fst (getLastCity H 24 w) = Some v"
    and conv: "get_field ''searchText'' v = Inr text" "ToString H text = Inl e"
  shows "r = None
       \<and> (\<exists>rq. requests w' = requests w @
               [rq, ForecastRequest (lat getBerlinCoordinates) (lon getBerlinCoordinates)])"
proof (cases "getLastCity H 24 w")
  case (Pair lastCity w1)
  then have w1: "requests w1 = requests w" and lc: "lastCity = Some v"
    using requests_getLastCity [of H 24 w] cached by simp_all
  show ?thesis
  proof (cases "as_Coordinates v")
    case None
    with Pair lc run show ?thesis
      by (simp add: loadInitialWeather_def loadInitialWeather_try_def)
  next
    case (Some c)
    let ?w2 = "console_log Log ''Loading last saved city:'' w1"
    let ?w3 = "?w2\<lparr>document := (document ?w2)\<lparr>loadingIndicator :=
                 map_option (\<lambda>e. e\<lparr>hidden := False\<rparr>) (loadingIndicator (document ?w2))\<rparr>\<rparr>"
    obtain w4 where f: "fetchWeatherData H c False False ?w3 = (None, w4)"
      "requests w4 = requests w @ [ForecastRequest (lat c) (lon c)]"
      using fetchWeatherData_one_request [of H c False False ?w3] w1
      by (cases "fetchWeatherData H c False False ?w3") (simp add: requests_console_log)
    have t: "loadInitialWeather_try H w = Some (Some e, w4)"
      using Pair lc Some f(1) conv
      by (simp add: loadInitialWeather_try_def Let_def)
    let ?w5 = "console_log Err ''Error loading initial weather:'' w4"
    from loadBerlin_one_request [of H ?w5] run t f(2) show ?thesis
      by (cases "loadBerlin H ?w5")
         (auto simp: loadInitialWeather_def loadInitialWeather_finally_def requests_console_log)
  qed
qed

text \<open>That second case at work: Paris is answered, the placeholder throws, Berlin is requested.\<close>

lemma getLastCity_odd:
  "getLastCity example_host 24
     ((example_cached odd_text_json)
        \<lparr>network := [Response 200 (ForecastBody (Some mild)),
                     Response 200 (ForecastBody (Some mild))]\<rparr>)
   = (Some odd_text_json, console_log Log ''Retrieved last city:''
       ((example_cached odd_text_json)
        \<lparr>network := [Response 200 (ForecastBody (Some mild)),
                     Response 200 (ForecastBody (Some mild))]\<rparr>))"
  by (simp add: getLastCity_def getLastCity_try_def getItem_def example_cached_def
      example_world_def odd_text_json_def expired_def ageInHours_def)

lemma as_Coordinates_odd:
  "as_Coordinates odd_text_json =
     Some \<lparr>lat = 488566 / 10000, lon = 23522 / 10000, name = ''Paris'',
           ccountry = None, cpostcodes = None\<rparr>"
  by (simp add: as_Coordinates_def odd_text_json_def)

lemma searchText_odd:
  "get_field ''searchText'' odd_text_json = Inr (JObj [(''toString'', JNum 1)])"
  by (simp add: odd_text_json_def)

lemma unconvertible_searchText_requests_berlin:
  "map_option (requests \<circ> snd)
     (loadInitialWeather example_host
        ((example_cached odd_text_json)
           \<lparr>network := [Response 200 (ForecastBody (Some mild)),
                        Response 200 (ForecastBody (Some mild))]\<rparr>))
   = Some [ForecastRequest (488566 / 10000) (23522 / 10000),
           ForecastRequest (5252 / 100) (13405 / 1000)]"
  unfolding loadInitialWeather_def loadInitialWeather_try_def getLastCity_odd
  by (simp add: as_Coordinates_odd searchText_odd Let_def fetchWeatherData_def
      fetchWeatherData_try_def fetchWeatherData_begin_def getCurrentWeather_def
      getCurrentWeather_try_def fetch_def console_log_def example_cached_def example_world_def
      example_page_def fetchWeatherData_catch_def fetchWeatherData_finally_def
      showWeatherData_def loadInitialWeather_finally_def loadBerlin_def ok_def
      updateWeatherDisplay_def announceWeatherUpdate_def getBerlinCoordinates_def mild_def)

lemma as_Coordinates_paris:
  "as_Coordinates paris_json =
     Some \<lparr>lat = 488566 / 10000, lon = 23522 / 10000, name = ''Paris'',
           ccountry = Some ''France'', cpostcodes = Some [''75001'']\<rparr>"
  by (simp add: as_Coordinates_def paris_json_def)

lemma searchText_paris:
  "get_field ''searchText'' paris_json = Inr (JStr ''Paris, France (PLZ: 75001)'')"
  by (simp add: paris_json_def)

lemma getLastCity_paris:
  "getLastCity example_host 24 cached_paris_offline =
     (Some paris_json, console_log Log ''Retrieved last city:'' cached_paris_offline)"
  by (simp add: getLastCity_def getLastCity_try_def getItem_def cached_paris_offline_def
      example_cached_def example_world_def paris_json_def expired_def ageInHours_def)

text \<open>
  C1 (what the code does). Paris is cached and valid, the first request is rejected and a
  second request would be answered. \<open>loadInitialWeather\<close> makes the one request for
  Paris, renders the error texts and stops: the reply a retry would get is still unread,
  and Berlin is never requested. \<open>fetchWeatherData\<close> catches the failure itself, so a
  failed request never enters the \<open>catch\<close> block of \<open>loadInitialWeather\<close> that
  falls back to Berlin.
\<close>

theorem bootstrap_failure_not_retried:
  "map_option fst (loadInitialWeather example_host cached_paris_offline) = Some None
   \<and> map_option (requests \<circ> snd) (loadInitialWeather example_host cached_paris_offline)
       = Some [ForecastRequest (488566 / 10000) (23522 / 10000)]
   \<and> map_option (network \<circ> snd) (loadInitialWeather example_host cached_paris_offline)
       = Some [Response 200 (ForecastBody (Some mild))]
   \<and> map_option (cityDisplay \<circ> document \<circ> snd) (loadInitialWeather example_host cached_paris_offline)
       = Some (Some (blank\<lparr>textContent := ''Fehler beim Laden der Wetterdaten''\<rparr>))
   \<and> map_option (weatherTypeDisplay \<circ> document \<circ> snd) (loadInitialWeather example_host cached_paris_offline)
       = Some (Some (blank\<lparr>textContent := ''Bitte versuchen Sie es erneut''\<rparr>))"
  unfolding loadInitialWeather_def loadInitialWeather_try_def getLastCity_paris
  by (simp add: as_Coordinates_paris searchText_paris Let_def fetchWeatherData_def fetchWeatherData_try_def
      fetchWeatherData_begin_def getCurrentWeather_def getCurrentWeather_try_def fetch_def
      console_log_def cached_paris_offline_def example_cached_def example_world_def
      example_page_def fetchWeatherData_catch_def fetchWeatherData_finally_def
      showWeatherData_def loadInitialWeather_finally_def)

end
